theory Spec2Isabelle
  imports Main "HOL-Library.Word"
begin

section \<open>Object identifiers\<close>

text \<open>
  A document identifier is a 12-byte ObjectId. A route parameter carries it as text, so
  \<open>findById\<close> first casts the text: exactly 24 hexadecimal digits (either case) make an
  identifier, anything else is a cast error. \<open>toHexString\<close> is the text of an identifier
  as a response prints it.
\<close>

type_synonym objectId = "96 word"

definition hexDigit :: "nat \<Rightarrow> char" where
  "hexDigit d = ''0123456789abcdef'' ! (d mod 16)"

fun hexN :: "nat \<Rightarrow> nat \<Rightarrow> string" where
  "hexN 0 n = []"
| "hexN (Suc k) n = hexN k (n div 16) @ [hexDigit n]"

definition toHexString :: "objectId \<Rightarrow> string" where
  "toHexString i = hexN 24 (unat i)"

definition hexVal :: "char \<Rightarrow> nat option" where
  "hexVal c = map_of
     [(CHR ''0'', 0), (CHR ''1'', 1), (CHR ''2'', 2), (CHR ''3'', 3), (CHR ''4'', 4),
      (CHR ''5'', 5), (CHR ''6'', 6), (CHR ''7'', 7), (CHR ''8'', 8), (CHR ''9'', 9),
      (CHR ''a'', 10), (CHR ''b'', 11), (CHR ''c'', 12), (CHR ''d'', 13), (CHR ''e'', 14),
      (CHR ''f'', 15), (CHR ''A'', 10), (CHR ''B'', 11), (CHR ''C'', 12), (CHR ''D'', 13),
      (CHR ''E'', 14), (CHR ''F'', 15)] c"

fun parseHex :: "string \<Rightarrow> nat \<Rightarrow> nat option" where
  "parseHex [] acc = Some acc"
| "parseHex (c # cs) acc =
     (case hexVal c of None \<Rightarrow> None | Some d \<Rightarrow> parseHex cs (16 * acc + d))"

definition castObjectId :: "string \<Rightarrow> objectId option" where
  "castObjectId s = (if length s = 24 then map_option word_of_nat (parseHex s 0) else None)"


section \<open>Schemas and models\<close>

text \<open>
  A schema lists its paths with their type and whether they are required, and says whether
  the library maintains \<open>createdAt\<close> and \<open>updatedAt\<close>. The two schemas are the tables of
  models/product.js and models/brand.js; models/index.js binds each to a model name.
\<close>

datatype fieldValue = Str string | Oid objectId

datatype schemaType = SchemaString | SchemaObjectId string

record schemaPath =
  path :: string
  pathType :: schemaType
  required :: bool

record schema =
  paths :: "schemaPath list"
  timestamps :: bool

definition productSchema :: schema where
  "productSchema =
     \<lparr>paths =
        [\<lparr>path = ''title'', pathType = SchemaString, required = True\<rparr>,
         \<lparr>path = ''description'', pathType = SchemaString, required = True\<rparr>,
         \<lparr>path = ''price'', pathType = SchemaString, required = True\<rparr>,
         \<lparr>path = ''brand'', pathType = SchemaObjectId ''Brand'', required = False\<rparr>],
      timestamps = True\<rparr>"

definition brandSchema :: schema where
  "brandSchema =
     \<lparr>paths =
        [\<lparr>path = ''name'', pathType = SchemaString, required = True\<rparr>,
         \<lparr>path = ''url'', pathType = SchemaString, required = True\<rparr>],
      timestamps = True\<rparr>"

record model =
  modelName :: string
  modelSchema :: schema

definition Product :: model where
  "Product = \<lparr>modelName = ''Product'', modelSchema = productSchema\<rparr>"

definition Brand :: model where
  "Brand = \<lparr>modelName = ''Brand'', modelSchema = brandSchema\<rparr>"


section \<open>Documents, the database and a process\<close>

text \<open>
  A document carries its identifier, the values of its schema paths, the paths whose value
  could not be cast when the document was built, and its two timestamps. The database maps
  a model name to its collection, in insertion order.

  A process (the seed script or the server) holds the connection handle of db/index.js:
  the contents of the database it is connected to and the state of the connection, which
  is \<open>Disconnected\<close> as long as the attempt has not succeeded. It also holds the
  counter of its identifier generator, its clock, the writes it has started without
  waiting for them and that have not settled, and the trace of what has happened so far,
  in the order it happened. The trace has the connection attempt, the console lines the
  repository's own code writes, the writes the seed script calls, the closing of the
  connection and the rejections nobody handles; the lines of the request logger and of the
  library's debug output are not in it.
\<close>

record document =
  doc_id :: objectId
  data :: "(string \<times> fieldValue) list"
  invalid :: "string list"
  createdAt :: "nat option"
  updatedAt :: "nat option"

type_synonym database = "string \<Rightarrow> document list"

datatype error =
    ValidationError "string list"
  | CastError string
  | BufferingTimedOut
  | DuplicateKey objectId
  | PoolClosedError
  | GenericError string

datatype readyState = Disconnected | Connected

datatype event =
    Connect string
  | ConsoleLog string
  | ConsoleError string
  | ConsoleLogError error
  | SaveCalled string document
  | InsertManyCalled string "(string \<times> fieldValue) list list"
  | CloseCalled
  | UnhandledRejection error

record process =
  db :: database
  readyState :: readyState
  nextId :: objectId
  clock :: nat
  inflight :: "(model \<times> document) list"
  events :: "event list"

text \<open>
  What a process finds outside itself: its environment variables, for each connection
  string either the database listening there or the message of the connection failure,
  the first identifier its generator hands out, and the time. The last field is the
  outcome of a race the process does not decide: for the writes it has started without
  waiting for them, oldest first, whether each has been carried out and acknowledged by
  the time the operation the process does wait for is acknowledged.
\<close>

record environment =
  envVars :: "string \<rightharpoonup> string"
  net :: "string \<Rightarrow> string + database"
  idSeed :: objectId
  time :: nat
  carriedOut :: "bool list"

definition console_log :: "string \<Rightarrow> process \<Rightarrow> process" where
  "console_log s p = p\<lparr>events := events p @ [ConsoleLog s]\<rparr>"

definition console_log_error :: "error \<Rightarrow> process \<Rightarrow> process" where
  "console_log_error err p = p\<lparr>events := events p @ [ConsoleLogError err]\<rparr>"

definition console_error :: "string \<Rightarrow> process \<Rightarrow> process" where
  "console_error s p = p\<lparr>events := events p @ [ConsoleError s]\<rparr>"


section \<open>db/index.js: the connection\<close>

text \<open>
  \<^verbatim>\<open>mongoose.connect('mongodb://127.0.0.1:27017/productsDatabase')
    .then(() => { console.log('Successfully connected to MongoDB') })
    .catch((err) => { console.error('Connection error', err.message) })\<close>
  Loading the module starts one attempt at the fixed address and returns the handle at
  once, not connected yet: \<open>db_module\<close>. The attempt settles later, when the code that
  loaded the module has run on: \<open>connection_settles\<close> is the callback that runs then.
  On success the handle is connected to the database found at the address and \<open>then\<close>
  logs; on failure \<open>catch\<close> logs the message and handles the rejection, so the process
  goes on with a handle that is not connected.
\<close>

definition db_module :: "environment \<Rightarrow> process" where
  "db_module e =
     \<lparr>db = (\<lambda>_. []), readyState = Disconnected, nextId = idSeed e, clock = time e,
      inflight = [], events = [Connect ''mongodb://127.0.0.1:27017/productsDatabase'']\<rparr>"

definition connection_settles :: "environment \<Rightarrow> process \<Rightarrow> process" where
  "connection_settles e p =
     (case net e ''mongodb://127.0.0.1:27017/productsDatabase'' of
        Inr d \<Rightarrow> console_log ''Successfully connected to MongoDB''
                   (p\<lparr>db := d, readyState := Connected\<rparr>)
      | Inl msg \<Rightarrow> console_error (''Connection error '' @ msg) p)"


section \<open>The operations of a model\<close>

subsection \<open>Building a document\<close>

text \<open>
  \<open>new\<close> is \<^verbatim>\<open>new Model(obj)\<close>: the identifier is generated here, before any write;
  keys that are not schema paths are dropped; each value is cast to the type of its path,
  and a value that cannot be cast marks its path invalid. Of the twelve bytes of an
  identifier the last three are a counter: the generator moves it on by one, modulo
  \<open>0xffffff\<close>, and leaves the nine bytes before it (time and process) as they are, so
  the counter wraps around without a carry.
\<close>

fun castValue :: "schemaType \<Rightarrow> fieldValue \<Rightarrow> fieldValue option" where
  "castValue SchemaString (Str s) = Some (Str s)"
| "castValue SchemaString (Oid i) = Some (Str (toHexString i))"
| "castValue (SchemaObjectId r) (Oid i) = Some (Oid i)"
| "castValue (SchemaObjectId r) (Str s) = map_option Oid (castObjectId s)"

fun setPaths ::
  "schemaPath list \<Rightarrow> (string \<times> fieldValue) list \<Rightarrow> (string \<times> fieldValue) list \<times> string list"
where
  "setPaths [] obj = ([], [])"
| "setPaths (sp # sps) obj =
     (case setPaths sps obj of
        (fs, bad) \<Rightarrow>
          (case map_of obj (path sp) of
             None \<Rightarrow> (fs, bad)
           | Some v \<Rightarrow>
               (case castValue (pathType sp) v of
                  None \<Rightarrow> (fs, path sp # bad)
                | Some v' \<Rightarrow> ((path sp, v') # fs, bad))))"

definition nextObjectId :: "objectId \<Rightarrow> objectId" where
  "nextObjectId i =
     word_of_nat (16777216 * (unat i div 16777216) + (unat i mod 16777216 + 1) mod 16777215)"

definition newObjectId :: "process \<Rightarrow> objectId \<times> process" where
  "newObjectId p = (nextId p, p\<lparr>nextId := nextObjectId (nextId p)\<rparr>)"

definition new :: "model \<Rightarrow> (string \<times> fieldValue) list \<Rightarrow> process \<Rightarrow> document \<times> process" where
  "new m obj p =
     (case newObjectId p of
        (i, p') \<Rightarrow>
          (case setPaths (paths (modelSchema m)) obj of
             (fs, bad) \<Rightarrow>
               (\<lparr>doc_id = i, data = fs, invalid = bad, createdAt = None, updatedAt = None\<rparr>,
                p')))"

subsection \<open>Validation\<close>

text \<open>
  The required validator of a string path wants a string of positive length, the one of
  an identifier path an identifier. \<open>validate\<close> returns the failing paths: those marked
  invalid when the document was built, then the required paths that fail.
\<close>

fun checkRequired :: "schemaType \<Rightarrow> fieldValue option \<Rightarrow> bool" where
  "checkRequired SchemaString (Some (Str s)) = (s \<noteq> [])"
| "checkRequired (SchemaObjectId r) (Some (Oid i)) = True"
| "checkRequired t v = False"

definition failsRequired :: "document \<Rightarrow> schemaPath \<Rightarrow> bool" where
  "failsRequired d sp =
     (required sp \<and> path sp \<notin> set (invalid d)
      \<and> \<not> checkRequired (pathType sp) (map_of (data d) (path sp)))"

definition validate :: "schema \<Rightarrow> document \<Rightarrow> string list" where
  "validate sch d = invalid d @ map path (filter (failsRequired d) (paths sch))"

subsection \<open>Writes\<close>

text \<open>
  The database refuses a second document with an identifier its collection already has.
  A write validates first, then needs the connection, then reaches the database. With
  \<open>timestamps\<close> set, a new document gets both timestamps from the clock.
  \<open>insertMany\<close> builds and validates every document before it sends any: one invalid
  document and nothing is written. The ordered bulk write stops at the first document the
  database refuses and keeps the ones before it. The call has two parts: what happens at
  once in the process (\<open>insertMany_call\<close>: the documents are built and validated), and
  the write through the connection (\<open>insertMany_write\<close>).
\<close>

definition stamp :: "schema \<Rightarrow> nat \<Rightarrow> document \<Rightarrow> document" where
  "stamp sch t d = (if timestamps sch then d\<lparr>createdAt := Some t, updatedAt := Some t\<rparr> else d)"

definition insertOne :: "string \<Rightarrow> document \<Rightarrow> database \<Rightarrow> error + database" where
  "insertOne coll d dbs =
     (if doc_id d \<in> set (map doc_id (dbs coll)) then Inl (DuplicateKey (doc_id d))
      else Inr (dbs(coll := dbs coll @ [d])))"

definition save :: "model \<Rightarrow> document \<Rightarrow> process \<Rightarrow> (error + unit) \<times> process" where
  "save m d p =
     (case validate (modelSchema m) d of
        e # es \<Rightarrow> (Inl (ValidationError (e # es)), p)
      | [] \<Rightarrow>
          if readyState p \<noteq> Connected then (Inl BufferingTimedOut, p)
          else
            (case insertOne (modelName m) (stamp (modelSchema m) (clock p) d) (db p) of
               Inl err \<Rightarrow> (Inl err, p)
             | Inr dbs \<Rightarrow> (Inr (), p\<lparr>db := dbs\<rparr>)))"

fun newMany ::
  "model \<Rightarrow> (string \<times> fieldValue) list list \<Rightarrow> process \<Rightarrow> document list \<times> process"
where
  "newMany m [] p = ([], p)"
| "newMany m (obj # objs) p =
     (case new m obj p of
        (d, p1) \<Rightarrow> (case newMany m objs p1 of (ds, p2) \<Rightarrow> (d # ds, p2)))"

fun insertAll :: "string \<Rightarrow> document list \<Rightarrow> database \<Rightarrow> error option \<times> database" where
  "insertAll coll [] dbs = (None, dbs)"
| "insertAll coll (d # ds) dbs =
     (case insertOne coll d dbs of
        Inl err \<Rightarrow> (Some err, dbs)
      | Inr dbs' \<Rightarrow> insertAll coll ds dbs')"

definition insertMany_call ::
  "model \<Rightarrow> (string \<times> fieldValue) list list \<Rightarrow> process \<Rightarrow> (error + document list) \<times> process"
where
  "insertMany_call m objs p0 =
     (case newMany m objs (p0\<lparr>events := events p0 @ [InsertManyCalled (modelName m) objs]\<rparr>) of
        (ds, p) \<Rightarrow>
          (case filter (\<lambda>d. validate (modelSchema m) d \<noteq> []) ds of
             bad # _ \<Rightarrow> (Inl (ValidationError (validate (modelSchema m) bad)), p)
           | [] \<Rightarrow> (Inr ds, p)))"

definition insertMany_write ::
  "model \<Rightarrow> document list \<Rightarrow> process \<Rightarrow> (error + document list) \<times> process"
where
  "insertMany_write m ds p =
     (if readyState p \<noteq> Connected then (Inl BufferingTimedOut, p)
      else
        (case insertAll (modelName m) (map (stamp (modelSchema m) (clock p)) ds) (db p) of
           (Some err, dbs) \<Rightarrow> (Inl err, p\<lparr>db := dbs\<rparr>)
         | (None, dbs) \<Rightarrow> (Inr (map (stamp (modelSchema m) (clock p)) ds), p\<lparr>db := dbs\<rparr>)))"

definition insertMany ::
  "model \<Rightarrow> (string \<times> fieldValue) list list \<Rightarrow> process \<Rightarrow> (error + document list) \<times> process"
where
  "insertMany m objs p0 =
     (case insertMany_call m objs p0 of
        (Inl err, p) \<Rightarrow> (Inl err, p)
      | (Inr ds, p) \<Rightarrow> insertMany_write m ds p)"

subsection \<open>Reads\<close>

text \<open>
  \<open>find\<close> returns the documents of the collection that match every condition of the
  filter, in the collection's order; the filter \<^verbatim>\<open>{}\<close> is the empty list of conditions.
  \<open>findById\<close> casts the text to an identifier and returns the document with that
  identifier, or nothing. Neither changes the process: they return it as they found it.
\<close>

definition matches :: "(string \<times> fieldValue) list \<Rightarrow> document \<Rightarrow> bool" where
  "matches flt d = list_all (\<lambda>(k, v). map_of (data d) k = Some v) flt"

definition find ::
  "model \<Rightarrow> (string \<times> fieldValue) list \<Rightarrow> process \<Rightarrow> (error + document list) \<times> process"
where
  "find m flt p =
     (if readyState p \<noteq> Connected then (Inl BufferingTimedOut, p)
      else (Inr (filter (matches flt) (db p (modelName m))), p))"

definition findById :: "model \<Rightarrow> string \<Rightarrow> process \<Rightarrow> (error + document option) \<times> process" where
  "findById m s p =
     (case castObjectId s of
        None \<Rightarrow> (Inl (CastError s), p)
      | Some i \<Rightarrow>
          if readyState p \<noteq> Connected then (Inl BufferingTimedOut, p)
          else (Inr (List.find (\<lambda>d. doc_id d = i) (db p (modelName m))), p))"

subsection \<open>Waiting, writes that nobody waits for, and closing\<close>

text \<open>
  \<open>await\<close> waits for the promise of the call it is given, and for nothing else: the
  caller goes on with the result of that call. \<^verbatim>\<open>doc.save()\<close> as a statement starts the
  write and drops its promise: \<open>call_save\<close> records the call and leaves the write in
  flight. While the process waits for something else, the writes in flight progress as
  the environment has it: a write that is carried out is the \<open>save\<close> of its document in
  the state of that moment, and when it fails it is a rejection nobody handles; the others
  stay in flight. Closing the connection does not wait for what is still in flight: those
  writes are interrupted, their documents are not in the database afterwards, each is
  rejected with the error of the closed pool, and nobody handles these rejections either.
  What the runtime does with a rejection nobody handles is outside the trace.
\<close>

definition await :: "(process \<Rightarrow> 'a \<times> process) \<Rightarrow> process \<Rightarrow> 'a \<times> process" where
  "await f p = f p"

definition call_save :: "model \<Rightarrow> document \<Rightarrow> process \<Rightarrow> process" where
  "call_save m d p =
     p\<lparr>inflight := inflight p @ [(m, d)], events := events p @ [SaveCalled (modelName m) d]\<rparr>"

fun progress :: "bool list \<Rightarrow> (model \<times> document) list \<Rightarrow> process \<Rightarrow> process" where
  "progress bs [] p = p"
| "progress [] (w # ws) p = p\<lparr>inflight := inflight p @ w # ws\<rparr>"
| "progress (False # bs) (w # ws) p = progress bs ws (p\<lparr>inflight := inflight p @ [w]\<rparr>)"
| "progress (True # bs) ((m, d) # ws) p =
     (case save m d p of
        (Inl err, p') \<Rightarrow> progress bs ws (p'\<lparr>events := events p' @ [UnhandledRejection err]\<rparr>)
      | (Inr _, p') \<Rightarrow> progress bs ws p')"

definition close :: "process \<Rightarrow> process" where
  "close p =
     p\<lparr>readyState := Disconnected, inflight := [],
       events := events p
         @ CloseCalled # map (\<lambda>w. UnhandledRejection PoolClosedError) (inflight p)\<rparr>"


section \<open>seed/brandsProducts.js: the seed script\<close>

text \<open>
  The script loads db/index.js and calls \<open>run\<close>. \<open>main\<close> builds the five brands one
  after the other and calls \<open>save\<close> on each without waiting for it: the \<open>await\<close> of the
  source stands before \<^verbatim>\<open>new Brand(...)\<close>, which is no promise, so the script goes
  straight on. It builds the array of seven products from the identifiers of the five
  brand documents and calls \<open>insertMany\<close>; this is the first point where the script
  waits. While it waits (\<open>meanwhile\<close>), the connection attempt of db/index.js settles and
  the five brand writes progress as far as the environment has it; then the batch is
  written and \<open>main\<close> logs. \<open>run\<close> waits for \<open>main\<close> and closes the connection at once;
  when \<open>main\<close> fails nothing handles the rejection and the connection is not closed. The
  listener the script registers for \<open>error\<close> events of the connection only writes to the
  console and is left out.
\<close>

definition products ::
  "objectId \<Rightarrow> objectId \<Rightarrow> objectId \<Rightarrow> objectId \<Rightarrow> objectId \<Rightarrow> (string \<times> fieldValue) list list"
where
  "products brand1 brand2 brand3 brand4 brand5 =
     [[(''title'', Str ''Apple AirPods''),
       (''description'', Str ''https://www.apple.com/airpods''),
       (''price'', Str ''250''),
       (''brand'', Oid brand1)],
      [(''title'', Str ''Apple iPhone Pro''),
       (''description'', Str ''https://www.apple.com/iphone-11-pro''),
       (''price'', Str ''1000''),
       (''brand'', Oid brand1)],
      [(''title'', Str ''Apple Watch''),
       (''description'', Str ''https://www.apple.com/watch''),
       (''price'', Str ''499''),
       (''brand'', Oid brand1)],
      [(''title'', Str ''Vespa Primavera''),
       (''description'', Str ''https://www.vespa.com/us_EN/vespa-models/primavera.html''),
       (''price'', Str ''3000''),
       (''brand'', Oid brand2)],
      [(''title'', Str ''New Balance 574 Core''),
       (''description'', Str ''https://www.newbalance.com/pd/574-core/ML574-EG.html''),
       (''price'', Str ''84''),
       (''brand'', Oid brand3)],
      [(''title'', Str ''Tribe Messenger Bike 004''),
       (''description'',
        Str ''https://tribebicycles.com/collections/messenger-series/products/mess-004-tx''),
       (''price'', Str ''675''),
       (''brand'', Oid brand4)],
      [(''title'', Str ''Stumptown Hair Bender Coffee''),
       (''description'', Str ''https://www.stumptowncoffee.com/products/hair-bender''),
       (''price'', Str ''17''),
       (''brand'', Oid brand5)]]"

definition meanwhile :: "environment \<Rightarrow> process \<Rightarrow> process" where
  "meanwhile e p =
     progress (carriedOut e) (inflight p) ((connection_settles e p)\<lparr>inflight := []\<rparr>)"

definition main :: "environment \<Rightarrow> process \<Rightarrow> (error + unit) \<times> process" where
  "main e p0 =
     (case new Brand [(''name'', Str ''Apple''), (''url'', Str ''https://www.apple.com'')] p0 of
        (brand1, p1) \<Rightarrow>
     (case new Brand [(''name'', Str ''Vespa''), (''url'', Str ''https://www.vespa.com'')]
             (call_save Brand brand1 p1) of
        (brand2, p2) \<Rightarrow>
     (case new Brand [(''name'', Str ''New Balance''), (''url'', Str ''https://www.newbalance.com'')]
             (call_save Brand brand2 p2) of
        (brand3, p3) \<Rightarrow>
     (case new Brand [(''name'', Str ''Tribe''), (''url'', Str ''https://www.tribebicycles.com'')]
             (call_save Brand brand3 p3) of
        (brand4, p4) \<Rightarrow>
     (case new Brand [(''name'', Str ''Stumptown''), (''url'', Str ''https://www.stumptowncoffee.com'')]
             (call_save Brand brand4 p4) of
        (brand5, p5) \<Rightarrow>
     (case insertMany_call Product
             (products (doc_id brand1) (doc_id brand2) (doc_id brand3) (doc_id brand4)
                (doc_id brand5))
             (call_save Brand brand5 p5) of
        (Inl err, p6) \<Rightarrow> (Inl err, p6)
      | (Inr docs, p6) \<Rightarrow>
     (case await (insertMany_write Product docs) (meanwhile e p6) of
        (Inl err, p) \<Rightarrow> (Inl err, p)
      | (Inr _, p) \<Rightarrow> (Inr (), console_log ''Created products!'' p))))))))"

definition run :: "environment \<Rightarrow> process \<Rightarrow> process" where
  "run e p =
     (case await (main e) p of
        (Inl err, p') \<Rightarrow> p'\<lparr>events := events p' @ [UnhandledRejection err]\<rparr>
      | (Inr _, p') \<Rightarrow> close p')"

definition seed :: "environment \<Rightarrow> process" where
  "seed e = run e (db_module e)"


section \<open>server.js: the routes\<close>

text \<open>
  \<open>server\<close> is the process once it has started: db/index.js is loaded first, which
  starts the connection attempt; \<open>listen\<close> logs its line as soon as the port is bound;
  the connection attempt settles after that. \<open>res_send\<close> and \<open>res_json\<close> answer with the
  status the handler never changes, 200. A handler either responds or its promise is
  rejected with nothing sent. The handlers by identifier wrap the lookup in
  \<open>try\<close>/\<open>catch\<close>: whatever is thrown inside is logged and answered with the fixed text.
  The list handlers have no \<open>try\<close>.
\<close>

datatype body = Text string | JsonObject document | JsonArray "document list"

record response =
  status :: nat
  body :: body

datatype outcome = Responded response | Rejected error

definition res_send :: "string \<Rightarrow> response" where
  "res_send s = \<lparr>status = 200, body = Text s\<rparr>"

definition res_json :: "body \<Rightarrow> response" where
  "res_json b = \<lparr>status = 200, body = b\<rparr>"

definition PORT :: "environment \<Rightarrow> string" where
  "PORT e = (case envVars e ''PORT'' of None \<Rightarrow> ''3001'' | Some s \<Rightarrow> if s = [] then ''3001'' else s)"

definition server :: "environment \<Rightarrow> process" where
  "server e =
     connection_settles e
       (console_log (''Express server listening on port '' @ PORT e) (db_module e))"

definition get_root :: "process \<Rightarrow> outcome \<times> process" where
  "get_root p = (Responded (res_send ''This is root''), p)"

definition get_products :: "process \<Rightarrow> outcome \<times> process" where
  "get_products p =
     (case await (find Product []) p of
        (Inl err, p') \<Rightarrow> (Rejected err, p')
      | (Inr found, p') \<Rightarrow> (Responded (res_json (JsonArray found)), p'))"

definition get_product_by_id :: "string \<Rightarrow> process \<Rightarrow> outcome \<times> process" where
  "get_product_by_id ident p =
     (case (case await (findById Product ident) p of
              (Inl err, p') \<Rightarrow> (Inl err, p')
            | (Inr None, p') \<Rightarrow> (Inl (GenericError ''Product not found''), p')
            | (Inr (Some product), p') \<Rightarrow> (Inr (res_json (JsonObject product)), p')) of
        (Inr r, p') \<Rightarrow> (Responded r, p')
      | (Inl err, p') \<Rightarrow> (Responded (res_send ''Product not found.''), console_log_error err p'))"

definition get_brands :: "process \<Rightarrow> outcome \<times> process" where
  "get_brands p =
     (case await (find Brand []) p of
        (Inl err, p') \<Rightarrow> (Rejected err, p')
      | (Inr found, p') \<Rightarrow> (Responded (res_json (JsonArray found)), p'))"

definition get_brand_by_id :: "string \<Rightarrow> process \<Rightarrow> outcome \<times> process" where
  "get_brand_by_id ident p =
     (case (case await (findById Brand ident) p of
              (Inl err, p') \<Rightarrow> (Inl err, p')
            | (Inr None, p') \<Rightarrow> (Inl (GenericError ''Brand not found''), p')
            | (Inr (Some brand), p') \<Rightarrow> (Inr (res_json (JsonObject brand)), p')) of
        (Inr r, p') \<Rightarrow> (Responded r, p')
      | (Inl err, p') \<Rightarrow> (Responded (res_send ''Brand not found.''), console_log_error err p'))"

datatype request =
    GetRoot
  | GetProducts
  | GetProductById string
  | GetBrands
  | GetBrandById string

fun app :: "request \<Rightarrow> process \<Rightarrow> outcome \<times> process" where
  "app GetRoot p = get_root p"
| "app GetProducts p = get_products p"
| "app (GetProductById ident) p = get_product_by_id ident p"
| "app GetBrands p = get_brands p"
| "app (GetBrandById ident) p = get_brand_by_id ident p"


text \<open>
  The server answers the requests it receives one after the other, each in the state the
  one before left.
\<close>

fun serve :: "request list \<Rightarrow> process \<Rightarrow> process" where
  "serve [] p = p"
| "serve (r # rs) p = serve rs (snd (app r p))"


section \<open>Vocabulary of the properties\<close>

text \<open>
  A document has a non-empty text at a path; an input object has a path absent or empty.
  A database is reachable when it comes from the empty one by writes through the two
  models, \<open>save\<close> and \<open>insertMany\<close>, made by any process in any state. The invariant:
  every stored product has non-empty \<open>title\<close>, \<open>description\<close> and \<open>price\<close>, every stored
  brand non-empty \<open>name\<close> and \<open>url\<close>.
\<close>

definition nonEmptyText :: "document \<Rightarrow> string \<Rightarrow> bool" where
  "nonEmptyText d k = (case map_of (data d) k of Some (Str s) \<Rightarrow> s \<noteq> [] | _ \<Rightarrow> False)"

definition absentOrEmpty :: "(string \<times> fieldValue) list \<Rightarrow> string \<Rightarrow> bool" where
  "absentOrEmpty obj k = (map_of obj k = None \<or> map_of obj k = Some (Str []))"

inductive reachable :: "database \<Rightarrow> bool" where
  start: "reachable (\<lambda>_. [])"
| saved:
    "reachable (db p) \<Longrightarrow> m = Product \<or> m = Brand \<Longrightarrow> reachable (db (snd (save m d p)))"
| inserted:
    "reachable (db p) \<Longrightarrow> m = Product \<or> m = Brand
       \<Longrightarrow> reachable (db (snd (insertMany m objs p)))"

definition textInvariant :: "database \<Rightarrow> bool" where
  "textInvariant dbs =
     (list_all (\<lambda>d. nonEmptyText d ''title'' \<and> nonEmptyText d ''description''
                    \<and> nonEmptyText d ''price'') (dbs (modelName Product))
      \<and> list_all (\<lambda>d. nonEmptyText d ''name'' \<and> nonEmptyText d ''url'')
          (dbs (modelName Brand)))"


text \<open>
  The documents the seed script builds, written out: a brand document from its identifier,
  name and address, a product document from its identifier and its input object, and the
  lists of them over a list of identifiers.
\<close>

abbreviation brandDoc :: "objectId \<Rightarrow> string \<Rightarrow> string \<Rightarrow> nat option \<Rightarrow> document" where
  "brandDoc i n u t \<equiv>
     \<lparr>doc_id = i, data = [(''name'', Str n), (''url'', Str u)], invalid = [],
      createdAt = t, updatedAt = t\<rparr>"

abbreviation productDoc ::
  "objectId \<Rightarrow> (string \<times> fieldValue) list \<Rightarrow> nat option \<Rightarrow> document" where
  "productDoc i obj t \<equiv> \<lparr>doc_id = i, data = obj, invalid = [], createdAt = t, updatedAt = t\<rparr>"

abbreviation seedBrands :: "objectId list \<Rightarrow> nat option \<Rightarrow> document list" where
  "seedBrands ids t \<equiv>
     map (\<lambda>(i, n, u). brandDoc i n u t)
       (zip ids
          [(''Apple'', ''https://www.apple.com''),
           (''Vespa'', ''https://www.vespa.com''),
           (''New Balance'', ''https://www.newbalance.com''),
           (''Tribe'', ''https://www.tribebicycles.com''),
           (''Stumptown'', ''https://www.stumptowncoffee.com'')])"

abbreviation productDocs ::
  "objectId list \<Rightarrow> (string \<times> fieldValue) list list \<Rightarrow> nat option \<Rightarrow> document list" where
  "productDocs ids objs t \<equiv> map (\<lambda>(i, obj). productDoc i obj t) (zip ids objs)"


section \<open>Identifiers as text\<close>

lemma length_hexN: "length (hexN k n) = k"
  by (induction k arbitrary: n) auto

lemma hexVal_digit:
  assumes "m < 16"
  shows "hexVal (''0123456789abcdef'' ! m) = Some m"
proof -
  from assms have "m = 0 \<or> m = 1 \<or> m = 2 \<or> m = 3 \<or> m = 4 \<or> m = 5 \<or> m = 6 \<or> m = 7 \<or>
      m = 8 \<or> m = 9 \<or> m = 10 \<or> m = 11 \<or> m = 12 \<or> m = 13 \<or> m = 14 \<or> m = 15"
    by arith
  then show ?thesis
    by (elim disjE) (simp_all add: hexVal_def)
qed

lemma hexVal_hexDigit: "hexVal (hexDigit d) = Some (d mod 16)"
  by (simp add: hexDigit_def hexVal_digit)

lemma parseHex_append:
  "parseHex (xs @ ys) acc = (case parseHex xs acc of None \<Rightarrow> None | Some a \<Rightarrow> parseHex ys a)"
  by (induction xs arbitrary: acc) (auto split: option.splits)

lemma parseHex_hexN: "parseHex (hexN k n) acc = Some (acc * 16 ^ k + n mod 16 ^ k)"
proof (induction k arbitrary: n acc)
  case 0
  then show ?case by simp
next
  case (Suc k)
  have "n mod (16 * 16 ^ k) = 16 * ((n div 16) mod 16 ^ k) + n mod 16"
    by (simp add: mod_mult2_eq)
  then show ?case
    by (simp add: parseHex_append Suc hexVal_hexDigit algebra_simps)
qed

text \<open>The text of an identifier casts back to the identifier.\<close>

lemma castObjectId_toHexString: "castObjectId (toHexString i) = Some i"
proof -
  have "unat i < 2 ^ 96" using unsigned_less [of i] by simp
  then have "unat i mod 16 ^ 24 = unat i" by simp
  then show ?thesis
    by (simp add: castObjectId_def toHexString_def length_hexN parseHex_hexN)
qed

lemma cast_short: "castObjectId ''42'' = None"
  by (simp add: castObjectId_def)

lemma cast_zero: "castObjectId ''000000000000000000000000'' = Some 0"
  by (simp add: castObjectId_def hexVal_def)


section \<open>The routes by identifier\<close>

lemma find_absent: "i \<notin> doc_id ` set xs \<Longrightarrow> List.find (\<lambda>d. doc_id d = i) xs = None"
  by (induction xs) auto

lemma findById_absent:
  assumes "\<forall>i. castObjectId ident = Some i \<longrightarrow> i \<notin> doc_id ` set (db p (modelName m))"
  shows "findById m ident p = (Inl (CastError ident), p)
       \<or> findById m ident p = (Inl BufferingTimedOut, p)
       \<or> findById m ident p = (Inr None, p)"
proof (cases "castObjectId ident")
  case None
  then show ?thesis by (simp add: findById_def)
next
  case (Some i)
  with assms have "List.find (\<lambda>d. doc_id d = i) (db p (modelName m)) = None"
    by (simp add: find_absent)
  with Some show ?thesis by (simp add: findById_def)
qed

text \<open>
  C1. A request for a product by an identifier that is the identifier of no stored
  product, be it text that is no identifier at all or a well-formed identifier with no
  document, is answered with status 200 and the plain text \<open>Product not found.\<close>, in every
  state of the process; the same request for a brand is answered with status 200 and
  \<open>Brand not found.\<close>. The answer is a text body, not a document and not another status.
\<close>

theorem not_found_fixed_text:
  "((\<forall>i. castObjectId ident = Some i \<longrightarrow> i \<notin> doc_id ` set (db p (modelName Product)))
      \<longrightarrow> fst (app (GetProductById ident) p)
            = Responded \<lparr>status = 200, body = Text ''Product not found.''\<rparr>)
   \<and> ((\<forall>i. castObjectId ident = Some i \<longrightarrow> i \<notin> doc_id ` set (db p (modelName Brand)))
      \<longrightarrow> fst (app (GetBrandById ident) p)
            = Responded \<lparr>status = 200, body = Text ''Brand not found.''\<rparr>)"
proof (intro conjI impI)
  assume "\<forall>i. castObjectId ident = Some i \<longrightarrow> i \<notin> doc_id ` set (db p (modelName Product))"
  from findById_absent [OF this]
  show "fst (app (GetProductById ident) p)
          = Responded \<lparr>status = 200, body = Text ''Product not found.''\<rparr>"
    by (auto simp: get_product_by_id_def await_def res_send_def)
next
  assume "\<forall>i. castObjectId ident = Some i \<longrightarrow> i \<notin> doc_id ` set (db p (modelName Brand))"
  from findById_absent [OF this]
  show "fst (app (GetBrandById ident) p)
          = Responded \<lparr>status = 200, body = Text ''Brand not found.''\<rparr>"
    by (auto simp: get_brand_by_id_def await_def res_send_def)
qed

text \<open>
  At a connected process with an empty database: the text \<open>42\<close> is no identifier, and
  the identifier of 24 zeros has no brand.
\<close>

theorem not_found_fixed_text_witness:
  "fst (app (GetProductById ''42'')
          \<lparr>db = (\<lambda>_. []), readyState = Connected, nextId = 0, clock = 0, inflight = [],
           events = []\<rparr>)
     = Responded \<lparr>status = 200, body = Text ''Product not found.''\<rparr>
   \<and> fst (app (GetBrandById ''000000000000000000000000'')
          \<lparr>db = (\<lambda>_. []), readyState = Connected, nextId = 0, clock = 0, inflight = [],
           events = []\<rparr>)
     = Responded \<lparr>status = 200, body = Text ''Brand not found.''\<rparr>"
  using
    not_found_fixed_text [of "''42''"
      "\<lparr>db = (\<lambda>_. []), readyState = Connected, nextId = 0, clock = 0, inflight = [],
        events = []\<rparr>"]
    not_found_fixed_text [of "''000000000000000000000000''"
      "\<lparr>db = (\<lambda>_. []), readyState = Connected, nextId = 0, clock = 0, inflight = [],
        events = []\<rparr>"]
  by (simp add: cast_short cast_zero)


section \<open>The list routes\<close>

lemma matches_Nil: "matches [] d"
  by (simp add: matches_def)

lemma find_all: "readyState p = Connected \<Longrightarrow> find m [] p = (Inr (db p (modelName m)), p)"
  by (simp add: find_def matches_Nil)

lemma find_unavailable:
  "readyState p \<noteq> Connected \<Longrightarrow> find m flt p = (Inl BufferingTimedOut, p)"
  by (simp add: find_def)

text \<open>
  C3. Whatever the database holds, the list route for products, asked through a connected
  handle, answers with status 200 and a JSON array that is the whole product collection,
  in its order: its length is the number of products stored, and it is the empty array
  for an empty collection.
\<close>

theorem list_products_whole_collection:
  "readyState p = Connected \<Longrightarrow>
     fst (app GetProducts p)
       = Responded \<lparr>status = 200, body = JsonArray (db p (modelName Product))\<rparr>
     \<and> (\<exists>docs. fst (app GetProducts p) = Responded \<lparr>status = 200, body = JsonArray docs\<rparr>
            \<and> length docs = length (db p (modelName Product)))"
  by (simp add: get_products_def await_def find_all res_json_def)

text \<open>A connected process whose database holds one product and one brand.\<close>

theorem list_products_whole_collection_witness:
  "fst (app GetProducts
          \<lparr>db = (\<lambda>_. [])
             (''Product'' :=
                [\<lparr>doc_id = 1, data = [(''title'', Str ''a'')], invalid = [],
                  createdAt = None, updatedAt = None\<rparr>],
              ''Brand'' :=
                [\<lparr>doc_id = 2, data = [(''name'', Str ''b'')], invalid = [],
                  createdAt = None, updatedAt = None\<rparr>]),
           readyState = Connected, nextId = 0, clock = 0, inflight = [], events = []\<rparr>)
     = Responded
         \<lparr>status = 200,
          body = JsonArray
            [\<lparr>doc_id = 1, data = [(''title'', Str ''a'')], invalid = [],
              createdAt = None, updatedAt = None\<rparr>]\<rparr>"
  using list_products_whole_collection [of
      "\<lparr>db = (\<lambda>_. [])
             (''Product'' :=
                [\<lparr>doc_id = 1, data = [(''title'', Str ''a'')], invalid = [],
                  createdAt = None, updatedAt = None\<rparr>],
              ''Brand'' :=
                [\<lparr>doc_id = 2, data = [(''name'', Str ''b'')], invalid = [],
                  createdAt = None, updatedAt = None\<rparr>]),
           readyState = Connected, nextId = 0, clock = 0, inflight = [], events = []\<rparr>"]
  by (simp add: Product_def)

text \<open>
  C10. The list routes have no recovery. Whatever error the \<open>find\<close> fails with, the
  handler's promise is rejected with that error. With no usable connection both list
  routes are rejected with the buffering timeout, and in a process with nothing in flight
  the handler leaves the process as it found it: nothing sent, nothing logged; the routes
  by identifier answer their fixed text in the same state. And in no state does a list
  route answer with a text body.
\<close>

theorem list_routes_no_recovery:
  "(fst (find Product [] p) = Inl err \<longrightarrow> fst (app GetProducts p) = Rejected err)
   \<and> (fst (find Brand [] p) = Inl err \<longrightarrow> fst (app GetBrands p) = Rejected err)
   \<and> (readyState p \<noteq> Connected \<longrightarrow>
         fst (app GetProducts p) = Rejected BufferingTimedOut
       \<and> fst (app GetBrands p) = Rejected BufferingTimedOut
       \<and> fst (app (GetProductById ident) p)
           = Responded \<lparr>status = 200, body = Text ''Product not found.''\<rparr>
       \<and> fst (app (GetBrandById ident) p)
           = Responded \<lparr>status = 200, body = Text ''Brand not found.''\<rparr>)
   \<and> (readyState p \<noteq> Connected \<and> inflight p = [] \<longrightarrow>
         app GetProducts p = (Rejected BufferingTimedOut, p)
       \<and> app GetBrands p = (Rejected BufferingTimedOut, p))
   \<and> fst (app GetProducts p) \<noteq> Responded \<lparr>status = st, body = Text s\<rparr>
   \<and> fst (app GetBrands p) \<noteq> Responded \<lparr>status = st, body = Text s\<rparr>"
proof -
  have prod: "fst (get_products p) = (case fst (find Product [] p) of
      Inl e \<Rightarrow> Rejected e | Inr found \<Rightarrow> Responded \<lparr>status = 200, body = JsonArray found\<rparr>)"
    by (simp add: get_products_def await_def res_json_def split: prod.splits sum.splits)
  have brand: "fst (get_brands p) = (case fst (find Brand [] p) of
      Inl e \<Rightarrow> Rejected e | Inr found \<Rightarrow> Responded \<lparr>status = 200, body = JsonArray found\<rparr>)"
    by (simp add: get_brands_def await_def res_json_def split: prod.splits sum.splits)
  have down: "fst (app GetProducts p) = Rejected BufferingTimedOut
       \<and> fst (app GetBrands p) = Rejected BufferingTimedOut
       \<and> fst (app (GetProductById ident) p)
           = Responded \<lparr>status = 200, body = Text ''Product not found.''\<rparr>
       \<and> fst (app (GetBrandById ident) p)
           = Responded \<lparr>status = 200, body = Text ''Brand not found.''\<rparr>"
    if "readyState p \<noteq> Connected"
    using that
    by (simp add: prod brand find_unavailable get_product_by_id_def get_brand_by_id_def
          await_def findById_def res_send_def split: option.splits)
  have idle: "app GetProducts p = (Rejected BufferingTimedOut, p)
       \<and> app GetBrands p = (Rejected BufferingTimedOut, p)"
    if "readyState p \<noteq> Connected \<and> inflight p = []"
    using that
    by (simp add: get_products_def get_brands_def await_def find_unavailable)
  have no_text: "fst (app GetProducts p) \<noteq> Responded \<lparr>status = st, body = Text s\<rparr>"
    "fst (app GetBrands p) \<noteq> Responded \<lparr>status = st, body = Text s\<rparr>"
    by (simp_all add: prod brand split: sum.splits)
  show ?thesis
    using down idle no_text by (simp add: prod brand)
qed

text \<open>A process whose connection failed, with nothing in flight.\<close>

theorem list_routes_no_recovery_witness:
  "app GetProducts
     \<lparr>db = (\<lambda>_. []), readyState = Disconnected, nextId = 0, clock = 0, inflight = [],
        events = []\<rparr>
     = (Rejected BufferingTimedOut,
        \<lparr>db = (\<lambda>_. []), readyState = Disconnected, nextId = 0, clock = 0, inflight = [],
        events = []\<rparr>)
   \<and> app GetBrands
     \<lparr>db = (\<lambda>_. []), readyState = Disconnected, nextId = 0, clock = 0, inflight = [],
        events = []\<rparr>
     = (Rejected BufferingTimedOut,
        \<lparr>db = (\<lambda>_. []), readyState = Disconnected, nextId = 0, clock = 0, inflight = [],
        events = []\<rparr>)
   \<and> fst (app (GetProductById ''42'')
        \<lparr>db = (\<lambda>_. []), readyState = Disconnected, nextId = 0, clock = 0, inflight = [],
        events = []\<rparr>)
     = Responded \<lparr>status = 200, body = Text ''Product not found.''\<rparr>"
  using list_routes_no_recovery [of
      "\<lparr>db = (\<lambda>_. []), readyState = Disconnected, nextId = 0, clock = 0, inflight = [],
        events = []\<rparr>"
      BufferingTimedOut "''42''"]
  by simp


section \<open>The routes never write\<close>

lemma app_frame: "db (snd (app r p)) = db p \<and> readyState (snd (app r p)) = readyState p"
proof (cases r)
  case GetRoot
  then show ?thesis by (simp add: get_root_def)
next
  case GetProducts
  then show ?thesis by (simp add: get_products_def await_def find_def)
next
  case (GetProductById ident)
  then show ?thesis
    by (simp add: get_product_by_id_def await_def findById_def console_log_error_def
          split: option.splits)
next
  case GetBrands
  then show ?thesis by (simp add: get_brands_def await_def find_def)
next
  case (GetBrandById ident)
  then show ?thesis
    by (simp add: get_brand_by_id_def await_def findById_def console_log_error_def
          split: option.splits)
qed

lemma serve_frame: "db (serve rs p) = db p \<and> readyState (serve rs p) = readyState p"
proof (induction rs arbitrary: p)
  case Nil
  then show ?case by simp
next
  case (Cons r rs)
  from app_frame [of r p] Cons [of "snd (app r p)"] show ?case by simp
qed

text \<open>
  C8. In every state the server can be in (started in any environment, after any
  sequence of requests), each of the five routes leaves every collection of the database
  as the server found it at its start, whether the handler answers a document, answers the
  fixed text or is rejected.
\<close>

theorem routes_leave_collections:
  "db (snd (app r (serve rs (server e)))) = db (server e)"
  using app_frame [of r "serve rs (server e)"] serve_frame [of rs "server e"] by simp


section \<open>The connection at start\<close>

text \<open>
  C9. Loading db/index.js makes one connection attempt, to the fixed address
  \<open>mongodb://127.0.0.1:27017/productsDatabase\<close>, whatever the environment variables are,
  and returns a handle that is not connected yet; in the server the variables change the
  port in the listening line and nothing else. The outcome arrives later, through the
  callbacks: in the server's trace the attempt comes first, then the listening line, then
  the line of the outcome, and there is no second attempt and no unhandled rejection.
  When the database answers, the success line is logged and the handle is connected to
  that database. When the attempt fails, the error line with the failure's message is
  logged and the handle stays as it was; the server goes on, and after any requests it
  has answered the handle is still disconnected and a \<open>find\<close>, \<open>findById\<close> or \<open>save\<close>
  fails when it is called.
\<close>

theorem connection_at_start:
  "events (db_module e) = [Connect ''mongodb://127.0.0.1:27017/productsDatabase'']
   \<and> readyState (db_module e) = Disconnected
   \<and> db_module (e\<lparr>envVars := vars\<rparr>) = db_module e
   \<and> connection_settles (e\<lparr>envVars := vars\<rparr>) p = connection_settles e p
   \<and> (\<exists>outcome.
         events (server e)
           = [Connect ''mongodb://127.0.0.1:27017/productsDatabase'',
              ConsoleLog (''Express server listening on port '' @ PORT e), outcome]
       \<and> (\<forall>u. outcome \<noteq> Connect u) \<and> (\<forall>err. outcome \<noteq> UnhandledRejection err))
   \<and> (net e ''mongodb://127.0.0.1:27017/productsDatabase'' = Inr d \<longrightarrow>
         connection_settles e p
           = p\<lparr>db := d, readyState := Connected,
               events := events p @ [ConsoleLog ''Successfully connected to MongoDB'']\<rparr>
       \<and> events (server e)
           = [Connect ''mongodb://127.0.0.1:27017/productsDatabase'',
              ConsoleLog (''Express server listening on port '' @ PORT e),
              ConsoleLog ''Successfully connected to MongoDB'']
       \<and> readyState (server e) = Connected \<and> db (server e) = d)
   \<and> (net e ''mongodb://127.0.0.1:27017/productsDatabase'' = Inl msg \<longrightarrow>
         connection_settles e p
           = p\<lparr>events := events p @ [ConsoleError (''Connection error '' @ msg)]\<rparr>
       \<and> events (server e)
           = [Connect ''mongodb://127.0.0.1:27017/productsDatabase'',
              ConsoleLog (''Express server listening on port '' @ PORT e),
              ConsoleError (''Connection error '' @ msg)]
       \<and> readyState (serve rs (server e)) = Disconnected
       \<and> fst (find m flt (serve rs (server e))) = Inl BufferingTimedOut
       \<and> fst (findById m (toHexString i) (serve rs (server e))) = Inl BufferingTimedOut
       \<and> fst (save Brand
                \<lparr>doc_id = i,
                 data = [(''name'', Str ''Apple''), (''url'', Str ''https://www.apple.com'')],
                 invalid = [], createdAt = None, updatedAt = None\<rparr>
                (serve rs (server e))) = Inl BufferingTimedOut)"
proof -
  have down: "readyState (serve rs (server e)) = Disconnected"
    if "net e ''mongodb://127.0.0.1:27017/productsDatabase'' = Inl msg"
    using that serve_frame [of rs "server e"]
    by (simp add: server_def connection_settles_def console_error_def console_log_def
          db_module_def)
  show ?thesis
  proof (cases "net e ''mongodb://127.0.0.1:27017/productsDatabase''")
    case (Inl a)
    with down show ?thesis
      by (simp add: db_module_def connection_settles_def console_error_def console_log_def
            server_def find_def findById_def castObjectId_toHexString save_def validate_def
            failsRequired_def Brand_def brandSchema_def)
  next
    case (Inr b)
    then show ?thesis
      by (simp add: db_module_def connection_settles_def console_error_def console_log_def
            server_def)
  qed
qed

text \<open>
  An environment in which nothing listens at the address, and one in which an empty
  database does.
\<close>

theorem connection_at_start_witness:
  "events (server
      \<lparr>envVars = Map.empty, net = (\<lambda>_. Inl ''connect ECONNREFUSED 127.0.0.1:27017''),
       idSeed = 0, time = 0, carriedOut = []\<rparr>)
     = [Connect ''mongodb://127.0.0.1:27017/productsDatabase'',
        ConsoleLog ''Express server listening on port 3001'',
        ConsoleError ''Connection error connect ECONNREFUSED 127.0.0.1:27017'']
   \<and> fst (find Product []
        (serve [GetRoot]
          (server
            \<lparr>envVars = Map.empty, net = (\<lambda>_. Inl ''connect ECONNREFUSED 127.0.0.1:27017''),
             idSeed = 0, time = 0, carriedOut = []\<rparr>))) = Inl BufferingTimedOut
   \<and> events (server
      \<lparr>envVars = Map.empty, net = (\<lambda>_. Inr (\<lambda>_. [])), idSeed = 0, time = 0,
       carriedOut = []\<rparr>)
     = [Connect ''mongodb://127.0.0.1:27017/productsDatabase'',
        ConsoleLog ''Express server listening on port 3001'',
        ConsoleLog ''Successfully connected to MongoDB'']
   \<and> readyState (server
      \<lparr>envVars = Map.empty, net = (\<lambda>_. Inr (\<lambda>_. [])), idSeed = 0, time = 0,
       carriedOut = []\<rparr>)
     = Connected"
  using
    connection_at_start [of
      "\<lparr>envVars = Map.empty, net = (\<lambda>_. Inl ''connect ECONNREFUSED 127.0.0.1:27017''),
        idSeed = 0, time = 0, carriedOut = []\<rparr>"
      Map.empty "db_module
      \<lparr>envVars = Map.empty, net = (\<lambda>_. Inr (\<lambda>_. [])), idSeed = 0, time = 0,
       carriedOut = []\<rparr>" "\<lambda>_. []" "''connect ECONNREFUSED 127.0.0.1:27017''" "[GetRoot]"
      Product "[]" 0]
    connection_at_start [of
      "\<lparr>envVars = Map.empty, net = (\<lambda>_. Inr (\<lambda>_. [])), idSeed = 0, time = 0,
        carriedOut = []\<rparr>"
      Map.empty "db_module
      \<lparr>envVars = Map.empty, net = (\<lambda>_. Inr (\<lambda>_. [])), idSeed = 0, time = 0,
       carriedOut = []\<rparr>" "\<lambda>_. []" "[]" "[]" Product "[]" 0]
  by (simp add: PORT_def)


section \<open>Required paths\<close>

text \<open>The two parts of \<open>insertMany\<close> put together.\<close>

lemma insertMany_unfold:
  "insertMany m objs p0 =
     (case newMany m objs (p0\<lparr>events := events p0 @ [InsertManyCalled (modelName m) objs]\<rparr>) of
        (ds, p) \<Rightarrow>
          (case filter (\<lambda>d. validate (modelSchema m) d \<noteq> []) ds of
             bad # _ \<Rightarrow> (Inl (ValidationError (validate (modelSchema m) bad)), p)
           | [] \<Rightarrow>
               if readyState p \<noteq> Connected then (Inl BufferingTimedOut, p)
               else
                 (case insertAll (modelName m) (map (stamp (modelSchema m) (clock p)) ds) (db p) of
                    (Some err, dbs) \<Rightarrow> (Inl err, p\<lparr>db := dbs\<rparr>)
                  | (None, dbs) \<Rightarrow>
                      (Inr (map (stamp (modelSchema m) (clock p)) ds), p\<lparr>db := dbs\<rparr>))))"
  by (simp add: insertMany_def insertMany_call_def insertMany_write_def
        split: prod.splits list.splits)

lemma checkRequired_String:
  "checkRequired SchemaString v = (case v of Some (Str s) \<Rightarrow> s \<noteq> [] | _ \<Rightarrow> False)"
  by (auto split: option.splits fieldValue.splits)

lemma checkRequired_text: "checkRequired SchemaString (map_of (data d) k) = nonEmptyText d k"
  by (simp add: checkRequired_String nonEmptyText_def)

lemma validate_rejects:
  assumes "sp \<in> set (paths sch)" and "required sp"
    and "\<not> checkRequired (pathType sp) (map_of (data d) (path sp))"
  shows "validate sch d \<noteq> []"
proof (cases "path sp \<in> set (invalid d)")
  case True
  then have "invalid d \<noteq> []" by auto
  then show ?thesis by (simp add: validate_def)
next
  case False
  with assms have "failsRequired d sp" by (simp add: failsRequired_def)
  with assms(1) have "filter (failsRequired d) (paths sch) \<noteq> []"
    by (auto simp: filter_empty_conv)
  then show ?thesis by (simp add: validate_def)
qed

lemma validate_accepts:
  assumes "validate sch d = []" and "sp \<in> set (paths sch)" and "required sp"
  shows "checkRequired (pathType sp) (map_of (data d) (path sp))"
  using assms validate_rejects by blast

lemma validate_Product:
  "validate productSchema d = [] \<Longrightarrow>
     nonEmptyText d ''title'' \<and> nonEmptyText d ''description'' \<and> nonEmptyText d ''price''"
  using validate_accepts [of productSchema d "\<lparr>path = ''title'', pathType = SchemaString, required = True\<rparr>"]
    validate_accepts [of productSchema d "\<lparr>path = ''description'', pathType = SchemaString, required = True\<rparr>"]
    validate_accepts [of productSchema d "\<lparr>path = ''price'', pathType = SchemaString, required = True\<rparr>"]
  by (simp add: productSchema_def checkRequired_text)

lemma validate_Brand:
  "validate brandSchema d = [] \<Longrightarrow> nonEmptyText d ''name'' \<and> nonEmptyText d ''url''"
  using validate_accepts [of brandSchema d "\<lparr>path = ''name'', pathType = SchemaString, required = True\<rparr>"]
    validate_accepts [of brandSchema d "\<lparr>path = ''url'', pathType = SchemaString, required = True\<rparr>"]
  by (simp add: brandSchema_def checkRequired_text)

lemma rejects_Product:
  "\<not> nonEmptyText d ''title'' \<or> \<not> nonEmptyText d ''description'' \<or> \<not> nonEmptyText d ''price''
     \<Longrightarrow> validate productSchema d \<noteq> []"
  using validate_Product by blast

lemma rejects_Brand:
  "\<not> nonEmptyText d ''name'' \<or> \<not> nonEmptyText d ''url'' \<Longrightarrow> validate brandSchema d \<noteq> []"
  using validate_Brand by blast

lemma data_stamp [simp]: "data (stamp sch t d) = data d" "doc_id (stamp sch t d) = doc_id d"
  by (simp_all add: stamp_def)

lemma nonEmptyText_stamp [simp]: "nonEmptyText (stamp sch t d) k = nonEmptyText d k"
  by (simp add: nonEmptyText_def)

text \<open>What a write can add to a collection.\<close>

lemma insertOne_cases:
  "insertOne coll d dbs = Inl (DuplicateKey (doc_id d)) \<or> insertOne coll d dbs = Inr (dbs(coll := dbs coll @ [d]))"
  by (simp add: insertOne_def)

lemma insertAll_appends:
  "\<exists>k. snd (insertAll coll ds dbs) = dbs(coll := dbs coll @ take k ds)"
proof (induction ds arbitrary: dbs)
  case Nil
  then show ?case by simp
next
  case (Cons d ds)
  from insertOne_cases [of coll d dbs] show ?case
  proof
    assume "insertOne coll d dbs = Inl (DuplicateKey (doc_id d))"
    then have "snd (insertAll coll (d # ds) dbs) = dbs(coll := dbs coll @ take 0 (d # ds))"
      by simp
    then show ?thesis by blast
  next
    assume ok: "insertOne coll d dbs = Inr (dbs(coll := dbs coll @ [d]))"
    from Cons.IH [of "dbs(coll := dbs coll @ [d])"] obtain k
      where "snd (insertAll coll ds (dbs(coll := dbs coll @ [d])))
               = (dbs(coll := dbs coll @ [d]))(coll := (dbs(coll := dbs coll @ [d])) coll @ take k ds)"
      by blast
    with ok have "snd (insertAll coll (d # ds) dbs) = dbs(coll := dbs coll @ take (Suc k) (d # ds))"
      by simp
    then show ?thesis by blast
  qed
qed

lemma newMany_snd_Cons:
  "snd (newMany m (obj # objs) p)
     = snd (newMany m objs (p\<lparr>nextId := nextObjectId (nextId p)\<rparr>))"
  by (simp add: new_def newObjectId_def split: prod.splits)

lemma newMany_keeps:
  "db (snd (newMany m objs p)) = db p \<and> readyState (snd (newMany m objs p)) = readyState p
   \<and> clock (snd (newMany m objs p)) = clock p"
proof (induction objs arbitrary: p)
  case Nil
  then show ?case by simp
next
  case (Cons obj objs)
  from Cons [of "p\<lparr>nextId := nextObjectId (nextId p)\<rparr>"] show ?case
    by (simp only: newMany_snd_Cons) simp
qed

lemma save_cases:
  "db (snd (save m d p)) = db p
   \<or> (validate (modelSchema m) d = [] \<and>
      db (snd (save m d p))
        = (db p)(modelName m := db p (modelName m) @ [stamp (modelSchema m) (clock p) d]))"
  using insertOne_cases [of "modelName m" "stamp (modelSchema m) (clock p) d" "db p"]
  by (cases "validate (modelSchema m) d") (auto simp: save_def)

lemma insertMany_cases:
  "(\<exists>err. fst (insertMany m objs p) = Inl err \<and> db (snd (insertMany m objs p)) = db p \<and> (\<exists>ps. err = ValidationError ps \<or> err = BufferingTimedOut))
   \<or> (\<exists>ds k. (\<forall>d \<in> set ds. validate (modelSchema m) d = []) \<and>
        db (snd (insertMany m objs p)) = (db p)(modelName m := db p (modelName m) @ take k (map (stamp (modelSchema m) (clock p)) ds)))"
proof -
  let ?p0 = "p\<lparr>events := events p @ [InsertManyCalled (modelName m) objs]\<rparr>"
  obtain ds p1 where nm: "newMany m objs ?p0 = (ds, p1)" by (cases "newMany m objs ?p0")
  from newMany_keeps [of m objs ?p0] nm have keep: "db p1 = db p" "readyState p1 = readyState p" "clock p1 = clock p"
    by simp_all
  show ?thesis
  proof (cases "filter (\<lambda>d. validate (modelSchema m) d \<noteq> []) ds")
    case (Cons bad rest)
    with nm keep show ?thesis by (simp add: insertMany_unfold)
  next
    case Nil
    then have valid: "\<forall>d \<in> set ds. validate (modelSchema m) d = []"
      by (simp add: filter_empty_conv)
    show ?thesis
    proof (cases "readyState p = Connected")
      case False
      with nm keep Nil show ?thesis by (simp add: insertMany_unfold)
    next
      case True
      from insertAll_appends [of "modelName m" "map (stamp (modelSchema m) (clock p)) ds" "db p"]
      obtain k where "snd (insertAll (modelName m) (map (stamp (modelSchema m) (clock p)) ds) (db p))
          = (db p)(modelName m := db p (modelName m) @ take k (map (stamp (modelSchema m) (clock p)) ds))"
        by blast
      with nm keep Nil True have "db (snd (insertMany m objs p)) = (db p)(modelName m := db p (modelName m) @ take k (map (stamp (modelSchema m) (clock p)) ds))"
        by (cases "insertAll (modelName m) (map (stamp (modelSchema m) (clock p)) ds) (db p)")
           (auto simp: insertMany_unfold split: option.splits)
      with valid show ?thesis by blast
    qed
  qed
qed

lemma textInvariant_append:
  assumes "textInvariant dbs" and "m = Product \<or> m = Brand"
    and "\<forall>d \<in> set ds. validate (modelSchema m) d = []"
  shows "textInvariant (dbs(modelName m := dbs (modelName m) @ take k (map (stamp (modelSchema m) t) ds)))"
  using assms(2)
proof
  assume m: "m = Product"
  have "nonEmptyText d ''title'' \<and> nonEmptyText d ''description'' \<and> nonEmptyText d ''price''"
    if "d \<in> set (take k (map (stamp productSchema t) ds))" for d
  proof -
    from that have "d \<in> set (map (stamp productSchema t) ds)" by (rule in_set_takeD)
    then obtain d0 where "d0 \<in> set ds" and "d = stamp productSchema t d0" by auto
    with assms(3) m validate_Product [of d0] show ?thesis by (simp add: Product_def)
  qed
  with assms(1) m show ?thesis
    by (auto simp: textInvariant_def list_all_iff Product_def Brand_def)
next
  assume m: "m = Brand"
  have "nonEmptyText d ''name'' \<and> nonEmptyText d ''url''"
    if "d \<in> set (take k (map (stamp brandSchema t) ds))" for d
  proof -
    from that have "d \<in> set (map (stamp brandSchema t) ds)" by (rule in_set_takeD)
    then obtain d0 where "d0 \<in> set ds" and "d = stamp brandSchema t d0" by auto
    with assms(3) m validate_Brand [of d0] show ?thesis by (simp add: Brand_def)
  qed
  with assms(1) m show ?thesis
    by (auto simp: textInvariant_def list_all_iff Product_def Brand_def)
qed

lemma reachable_textInvariant: "reachable dbs \<Longrightarrow> textInvariant dbs"
proof (induction rule: reachable.induct)
  case start
  then show ?case by (simp add: textInvariant_def)
next
  case (saved p m d)
  from save_cases [of m d p] show ?case
  proof
    assume "db (snd (save m d p)) = db p"
    with saved.IH show ?thesis by simp
  next
    assume ok: "validate (modelSchema m) d = [] \<and>
      db (snd (save m d p))
        = (db p)(modelName m := db p (modelName m) @ [stamp (modelSchema m) (clock p) d])"
    then have "\<forall>x \<in> set [d]. validate (modelSchema m) x = []" by simp
    from textInvariant_append [OF saved.IH saved.hyps(2) this, of 1 "clock p"]
    have "textInvariant
        ((db p)(modelName m := db p (modelName m) @ [stamp (modelSchema m) (clock p) d]))"
      by simp
    with ok show ?thesis by (simp only:)
  qed
next
  case (inserted p m objs)
  from insertMany_cases [of m objs p] show ?case
  proof
    assume "\<exists>err. fst (insertMany m objs p) = Inl err \<and> db (snd (insertMany m objs p)) = db p
       \<and> (\<exists>ps. err = ValidationError ps \<or> err = BufferingTimedOut)"
    with inserted.IH show ?thesis by auto
  next
    assume "\<exists>ds k. (\<forall>d \<in> set ds. validate (modelSchema m) d = []) \<and>
        db (snd (insertMany m objs p)) = (db p)(modelName m := db p (modelName m) @ take k (map (stamp (modelSchema m) (clock p)) ds))"
    then obtain ds k where "\<forall>d \<in> set ds. validate (modelSchema m) d = []"
      and "db (snd (insertMany m objs p)) = (db p)(modelName m := db p (modelName m) @ take k (map (stamp (modelSchema m) (clock p)) ds))"
      by blast
    with textInvariant_append [OF inserted.IH inserted.hyps(2), of ds k "clock p"]
    show ?thesis by (simp only:)
  qed
qed

text \<open>Input objects that lack a required text.\<close>

lemma setPaths_absentOrEmpty:
  "absentOrEmpty obj k \<Longrightarrow> \<not> checkRequired t (map_of (fst (setPaths sps obj)) k)"
proof (induction sps)
  case Nil
  then show ?case by simp
next
  case (Cons sp sps)
  show ?case
  proof (cases "path sp = k")
    case False
    with Cons show ?thesis
      by (auto split: prod.splits option.splits)
  next
    case True
    from Cons.prems have "map_of obj k = None \<or> map_of obj k = Some (Str [])"
      by (simp add: absentOrEmpty_def)
    then show ?thesis
    proof
      assume "map_of obj k = None"
      with True Cons show ?thesis by (auto split: prod.splits)
    next
      assume e: "map_of obj k = Some (Str [])"
      show ?thesis
      proof (cases "pathType sp")
        case SchemaString
        with e True Cons show ?thesis
          by (cases t) (auto split: prod.splits)
      next
        case (SchemaObjectId r)
        with e True Cons show ?thesis
          by (auto simp: castObjectId_def split: prod.splits)
      qed
    qed
  qed
qed

lemma new_data: "data (fst (new m obj p)) = fst (setPaths (paths (modelSchema m)) obj)"
  by (simp add: new_def newObjectId_def split: prod.splits)

lemma new_rejected:
  assumes "sp \<in> set (paths (modelSchema m))" and "required sp" and "absentOrEmpty obj (path sp)"
  shows "validate (modelSchema m) (fst (new m obj p)) \<noteq> []"
  using validate_rejects [OF assms(1,2), of "fst (new m obj p)"]
    setPaths_absentOrEmpty [OF assms(3), of "pathType sp" "paths (modelSchema m)"]
  by (simp add: new_data)

lemma newMany_Cons:
  "fst (newMany m (obj # objs) p) = fst (new m obj p) # fst (newMany m objs (snd (new m obj p)))"
  by (simp split: prod.splits)

lemma newMany_member:
  "obj \<in> set objs \<Longrightarrow> \<exists>q. fst (new m obj q) \<in> set (fst (newMany m objs p))"
proof (induction objs arbitrary: p)
  case Nil
  then show ?case by simp
next
  case (Cons o1 objs)
  show ?case
  proof (cases "obj = o1")
    case True
    have "fst (new m o1 p) \<in> set (fst (newMany m (o1 # objs) p))"
      by (simp only: newMany_Cons) simp
    with True show ?thesis by blast
  next
    case False
    with Cons.prems have "obj \<in> set objs" by simp
    from Cons.IH [OF this, of "snd (new m o1 p)"] obtain q
      where "fst (new m obj q) \<in> set (fst (newMany m objs (snd (new m o1 p))))" by blast
    then have "fst (new m obj q) \<in> set (fst (newMany m (o1 # objs) p))"
      by (simp only: newMany_Cons) simp
    then show ?thesis by blast
  qed
qed

lemma save_rejected:
  "validate (modelSchema m) d \<noteq> [] \<Longrightarrow> \<exists>ps. save m d p = (Inl (ValidationError ps), p)"
  by (cases "validate (modelSchema m) d") (simp_all add: save_def)

lemma insertMany_rejected:
  assumes "obj \<in> set objs" and "sp \<in> set (paths (modelSchema m))" and "required sp"
    and "absentOrEmpty obj (path sp)"
  shows "(\<exists>ps. fst (insertMany m objs p) = Inl (ValidationError ps))
       \<and> db (snd (insertMany m objs p)) = db p"
proof -
  let ?p0 = "p\<lparr>events := events p @ [InsertManyCalled (modelName m) objs]\<rparr>"
  obtain ds p1 where nm: "newMany m objs ?p0 = (ds, p1)" by (cases "newMany m objs ?p0")
  from newMany_keeps [of m objs ?p0] nm have keep: "db p1 = db p" by simp
  from newMany_member [OF assms(1), of m ?p0] nm obtain q where "fst (new m obj q) \<in> set ds"
    by auto
  moreover from new_rejected [OF assms(2,3,4)] have "validate (modelSchema m) (fst (new m obj q)) \<noteq> []" .
  ultimately have "filter (\<lambda>d. validate (modelSchema m) d \<noteq> []) ds \<noteq> []"
    by (auto simp: filter_empty_conv)
  then obtain bad rest where "filter (\<lambda>d. validate (modelSchema m) d \<noteq> []) ds = bad # rest"
    by (cases "filter (\<lambda>d. validate (modelSchema m) d \<noteq> []) ds") auto
  with nm keep show ?thesis by (simp add: insertMany_unfold)
qed

lemma product_paths:
  "\<lparr>path = ''title'', pathType = SchemaString, required = True\<rparr> \<in> set (paths (modelSchema Product))"
  "\<lparr>path = ''description'', pathType = SchemaString, required = True\<rparr> \<in> set (paths (modelSchema Product))"
  "\<lparr>path = ''price'', pathType = SchemaString, required = True\<rparr> \<in> set (paths (modelSchema Product))"
  by (simp_all add: Product_def productSchema_def)

lemma brand_paths:
  "\<lparr>path = ''name'', pathType = SchemaString, required = True\<rparr> \<in> set (paths (modelSchema Brand))"
  "\<lparr>path = ''url'', pathType = SchemaString, required = True\<rparr> \<in> set (paths (modelSchema Brand))"
  by (simp_all add: Brand_def brandSchema_def)

text \<open>
  C4. A write is refused with a validation error, and writes nothing, when a required text
  is missing or empty: \<open>save\<close> of a product document without a non-empty \<open>title\<close>,
  \<open>description\<close> or \<open>price\<close>; \<open>save\<close> of a brand document without a non-empty \<open>name\<close>
  or \<open>url\<close>, also when the document was built from an input object that lacks one;
  \<open>insertMany\<close> of products when one input object of the batch lacks one of the three.
  So in every database reachable from the empty one through the writes of the two models,
  every stored product has non-empty \<open>title\<close>, \<open>description\<close> and \<open>price\<close> and every
  stored brand has non-empty \<open>name\<close> and \<open>url\<close>.
\<close>

theorem required_text_enforced:
  "(\<not> nonEmptyText d ''title'' \<or> \<not> nonEmptyText d ''description'' \<or> \<not> nonEmptyText d ''price''
      \<longrightarrow> (\<exists>ps. save Product d p = (Inl (ValidationError ps), p)))
   \<and> (\<not> nonEmptyText d ''name'' \<or> \<not> nonEmptyText d ''url''
      \<longrightarrow> (\<exists>ps. save Brand d p = (Inl (ValidationError ps), p)))
   \<and> (absentOrEmpty obj ''name'' \<or> absentOrEmpty obj ''url''
      \<longrightarrow> (\<exists>ps. save Brand (fst (new Brand obj q)) p = (Inl (ValidationError ps), p)))
   \<and> (obj \<in> set objs
       \<and> (absentOrEmpty obj ''title'' \<or> absentOrEmpty obj ''description''
          \<or> absentOrEmpty obj ''price'')
      \<longrightarrow> (\<exists>ps. fst (insertMany Product objs p) = Inl (ValidationError ps))
          \<and> db (snd (insertMany Product objs p)) = db p)
   \<and> (reachable dbs \<longrightarrow> textInvariant dbs)"
proof -
  have p1: "\<exists>ps. save Product d p = (Inl (ValidationError ps), p)"
    if "\<not> nonEmptyText d ''title'' \<or> \<not> nonEmptyText d ''description''
        \<or> \<not> nonEmptyText d ''price''"
  proof -
    from that have "validate (modelSchema Product) d \<noteq> []"
      using rejects_Product by (simp add: Product_def)
    then show ?thesis by (rule save_rejected)
  qed
  have p2: "\<exists>ps. save Brand d p = (Inl (ValidationError ps), p)"
    if "\<not> nonEmptyText d ''name'' \<or> \<not> nonEmptyText d ''url''"
  proof -
    from that have "validate (modelSchema Brand) d \<noteq> []"
      using rejects_Brand by (simp add: Brand_def)
    then show ?thesis by (rule save_rejected)
  qed
  have p3: "\<exists>ps. save Brand (fst (new Brand obj q)) p = (Inl (ValidationError ps), p)"
    if "absentOrEmpty obj ''name'' \<or> absentOrEmpty obj ''url''"
  proof -
    from that have "validate (modelSchema Brand) (fst (new Brand obj q)) \<noteq> []"
      using new_rejected [OF brand_paths(1), of obj q] new_rejected [OF brand_paths(2), of obj q]
      by auto
    then show ?thesis by (rule save_rejected)
  qed
  have p4: "(\<exists>ps. fst (insertMany Product objs p) = Inl (ValidationError ps))
          \<and> db (snd (insertMany Product objs p)) = db p"
    if a: "obj \<in> set objs
       \<and> (absentOrEmpty obj ''title'' \<or> absentOrEmpty obj ''description''
          \<or> absentOrEmpty obj ''price'')"
  proof -
    from a have "obj \<in> set objs" by simp
    from a insertMany_rejected [OF this product_paths(1), of p]
      insertMany_rejected [OF this product_paths(2), of p]
      insertMany_rejected [OF this product_paths(3), of p]
    show ?thesis by auto
  qed
  have p5: "textInvariant dbs" if "reachable dbs"
    using that by (rule reachable_textInvariant)
  from p1 p2 p3 p4 p5 show ?thesis by blast
qed

lemma one_brand_saved:
  "db (snd (save Brand
        \<lparr>doc_id = 0, data = [(''name'', Str ''Apple''), (''url'', Str ''https://www.apple.com'')],
         invalid = [], createdAt = None, updatedAt = None\<rparr>
        \<lparr>db = (\<lambda>_. []), readyState = Connected, nextId = 1, clock = 0, inflight = [],
         events = []\<rparr>))
   = (\<lambda>_. [])(''Brand'' :=
        [\<lparr>doc_id = 0, data = [(''name'', Str ''Apple''), (''url'', Str ''https://www.apple.com'')],
          invalid = [], createdAt = Some 0, updatedAt = Some 0\<rparr>])"
  by (simp add: save_def validate_def failsRequired_def Brand_def brandSchema_def stamp_def
        insertOne_def)

text \<open>
  The database after one brand is saved into the empty one is reachable; a product with an
  empty title is refused by \<open>save\<close>, a batch whose product has no description by
  \<open>insertMany\<close>.
\<close>

theorem required_text_enforced_witness:
  "textInvariant ((\<lambda>_. [])(''Brand'' :=
        [\<lparr>doc_id = 0, data = [(''name'', Str ''Apple''), (''url'', Str ''https://www.apple.com'')],
          invalid = [], createdAt = Some 0, updatedAt = Some 0\<rparr>]))
   \<and> (\<exists>ps. save Product
          \<lparr>doc_id = 1, data = [(''title'', Str []), (''price'', Str ''250'')], invalid = [],
           createdAt = None, updatedAt = None\<rparr>
          \<lparr>db = (\<lambda>_. []), readyState = Connected, nextId = 2, clock = 0, inflight = [],
           events = []\<rparr>
        = (Inl (ValidationError ps),
           \<lparr>db = (\<lambda>_. []), readyState = Connected, nextId = 2, clock = 0, inflight = [],
            events = []\<rparr>))
   \<and> (\<exists>ps. fst (insertMany Product [[(''title'', Str ''Apple AirPods''), (''price'', Str ''250'')]]
          \<lparr>db = (\<lambda>_. []), readyState = Connected, nextId = 2, clock = 0, inflight = [],
           events = []\<rparr>)
        = Inl (ValidationError ps))"
proof -
  have r: "reachable ((\<lambda>_. [])(''Brand'' :=
        [\<lparr>doc_id = 0, data = [(''name'', Str ''Apple''), (''url'', Str ''https://www.apple.com'')],
          invalid = [], createdAt = Some 0, updatedAt = Some 0\<rparr>]))"
    using reachable.saved [of
        "\<lparr>db = (\<lambda>_. []), readyState = Connected, nextId = 1, clock = 0, inflight = [],
          events = []\<rparr>" Brand
        "\<lparr>doc_id = 0, data = [(''name'', Str ''Apple''), (''url'', Str ''https://www.apple.com'')],
          invalid = [], createdAt = None, updatedAt = None\<rparr>"]
      reachable.start
    by (simp only: one_brand_saved) simp
  have t: "\<not> nonEmptyText \<lparr>doc_id = 1, data = [(''title'', Str []), (''price'', Str ''250'')], invalid = [],
           createdAt = None, updatedAt = None\<rparr> ''title''"
    by (simp add: nonEmptyText_def)
  have o: "absentOrEmpty [(''title'', Str ''Apple AirPods''), (''price'', Str ''250'')] ''description''"
    by (simp add: absentOrEmpty_def)
  from r t o required_text_enforced [of
      "\<lparr>doc_id = 1, data = [(''title'', Str []), (''price'', Str ''250'')], invalid = [],
           createdAt = None, updatedAt = None\<rparr>"
      "\<lparr>db = (\<lambda>_. []), readyState = Connected, nextId = 2, clock = 0, inflight = [],
           events = []\<rparr>"
      "[(''title'', Str ''Apple AirPods''), (''price'', Str ''250'')]"
      "\<lparr>db = (\<lambda>_. []), readyState = Connected, nextId = 2, clock = 0, inflight = [],
           events = []\<rparr>"
      "[[(''title'', Str ''Apple AirPods''), (''price'', Str ''250'')]]"
      "(\<lambda>_. [])(''Brand'' :=
        [\<lparr>doc_id = 0, data = [(''name'', Str ''Apple''), (''url'', Str ''https://www.apple.com'')],
          invalid = [], createdAt = Some 0, updatedAt = Some 0\<rparr>])"]
  show ?thesis by simp
qed


section \<open>Creating a product and fetching it\<close>

lemma setPaths_product:
  assumes "map_of obj ''title'' = Some (Str t)" and "map_of obj ''description'' = Some (Str ds)"
    and "map_of obj ''price'' = Some (Str pr)"
    and "map_of obj ''brand'' = None \<or> map_of obj ''brand'' = Some (Oid b)"
  shows "setPaths (paths productSchema) obj
     = ([(''title'', Str t), (''description'', Str ds), (''price'', Str pr)]
          @ (case map_of obj ''brand'' of None \<Rightarrow> [] | Some v \<Rightarrow> [(''brand'', v)]), [])"
  using assms by (auto simp: productSchema_def)

lemma setPaths_brand_kept:
  "map_of obj ''brand'' = Some (Oid b) \<Longrightarrow>
     map_of (fst (setPaths (paths productSchema) obj)) ''brand'' = Some (Oid b)"
  by (auto simp: productSchema_def split: option.splits prod.splits)

lemma insertAll_ok:
  "insertAll coll xs dbs = (None, dbs') \<Longrightarrow>
     dbs' = dbs(coll := dbs coll @ xs) \<and> distinct (map doc_id xs)
     \<and> doc_id ` set xs \<inter> doc_id ` set (dbs coll) = {}"
proof (induction xs arbitrary: dbs)
  case Nil
  then show ?case by simp
next
  case (Cons x xs)
  from Cons.prems have fresh: "doc_id x \<notin> doc_id ` set (dbs coll)"
    and rest: "insertAll coll xs (dbs(coll := dbs coll @ [x])) = (None, dbs')"
    by (auto simp: insertOne_def split: if_splits)
  from Cons.IH [OF rest] fresh show ?case by auto
qed

lemma find_append_fresh:
  "i \<notin> doc_id ` set ys \<Longrightarrow>
     List.find (\<lambda>d. doc_id d = i) (ys @ xs) = List.find (\<lambda>d. doc_id d = i) xs"
  by (induction ys) auto

lemma find_distinct:
  "distinct (map doc_id xs) \<Longrightarrow> j < length xs \<Longrightarrow>
     List.find (\<lambda>d. doc_id d = doc_id (xs ! j)) xs = Some (xs ! j)"
proof (induction xs arbitrary: j)
  case Nil
  then show ?case by simp
next
  case (Cons x xs)
  show ?case
  proof (cases j)
    case 0
    then show ?thesis by simp
  next
    case (Suc k)
    with Cons.prems have k: "k < length xs" by simp
    then have "xs ! k \<in> set xs" by (rule nth_mem)
    then have "doc_id (xs ! k) \<in> doc_id ` set xs" by (rule imageI)
    with Cons.prems have "doc_id (xs ! k) \<noteq> doc_id x" by auto
    with Cons Suc k show ?thesis by auto
  qed
qed

lemma insertAll_find:
  assumes "insertAll coll xs dbs = (None, dbs')" and "j < length xs"
  shows "List.find (\<lambda>d. doc_id d = doc_id (xs ! j)) (dbs' coll) = Some (xs ! j)"
proof -
  from insertAll_ok [OF assms(1)]
  have eq: "dbs' coll = dbs coll @ xs" and dist: "distinct (map doc_id xs)"
    and disj: "doc_id ` set xs \<inter> doc_id ` set (dbs coll) = {}"
    by simp_all
  from assms(2) have "doc_id (xs ! j) \<in> doc_id ` set xs" by simp
  with disj have "doc_id (xs ! j) \<notin> doc_id ` set (dbs coll)" by blast
  with eq find_distinct [OF dist assms(2)] show ?thesis
    by (simp add: find_append_fresh)
qed

lemma newMany_data:
  "map data (fst (newMany m objs p)) = map (\<lambda>obj. fst (setPaths (paths (modelSchema m)) obj)) objs"
proof (induction objs arbitrary: p)
  case Nil
  then show ?case by simp
next
  case (Cons obj objs)
  show ?case by (simp only: newMany_Cons) (simp add: new_data Cons)
qed

lemma insertMany_ok:
  assumes "insertMany m objs p = (Inr ds, p')"
  shows "map data ds = map (\<lambda>obj. fst (setPaths (paths (modelSchema m)) obj)) objs
       \<and> insertAll (modelName m) ds (db p) = (None, db p')"
proof -
  let ?p0 = "p\<lparr>events := events p @ [InsertManyCalled (modelName m) objs]\<rparr>"
  obtain ds0 p1 where nm: "newMany m objs ?p0 = (ds0, p1)" by (cases "newMany m objs ?p0")
  from newMany_data [of m objs ?p0] nm
  have d0: "map data ds0 = map (\<lambda>obj. fst (setPaths (paths (modelSchema m)) obj)) objs" by simp
  from assms nm have "ds = map (stamp (modelSchema m) (clock p1)) ds0
      \<and> insertAll (modelName m) (map (stamp (modelSchema m) (clock p1)) ds0) (db p1) = (None, db p')"
    by (auto simp: insertMany_unfold split: list.splits if_splits prod.splits option.splits)
  moreover from newMany_keeps [of m objs ?p0] nm have "db p1 = db p" by simp
  ultimately show ?thesis using d0 by (simp add: comp_def)
qed

text \<open>
  C5. A product input with non-empty \<open>title\<close>, \<open>description\<close> and \<open>price\<close> passes
  validation whatever its \<open>brand\<close> is: absent, or any identifier at all. Through a
  connected handle it is then created: nothing is asked of the Brand collection, so the
  identifier of no stored brand is accepted like any other, and the document is stored
  with the brand it was given (or none) under the identifier the generator handed out.
  The one thing the database asks is that no stored product already has that identifier.
\<close>

theorem product_created_whatever_brand:
  assumes "map_of obj ''title'' = Some (Str t)" and "t \<noteq> []"
    and "map_of obj ''description'' = Some (Str ds)" and "ds \<noteq> []"
    and "map_of obj ''price'' = Some (Str pr)" and "pr \<noteq> []"
    and "map_of obj ''brand'' = None \<or> map_of obj ''brand'' = Some (Oid b)"
  shows "validate (modelSchema Product) (fst (new Product obj q)) = []
       \<and> (readyState p = Connected \<and> nextId p \<notin> doc_id ` set (db p (modelName Product))
            \<longrightarrow> (\<exists>d. fst (insertMany Product [obj] p) = Inr [d]
                  \<and> doc_id d = nextId p
                  \<and> map_of (data d) ''brand'' = map_of obj ''brand''
                  \<and> db (snd (insertMany Product [obj] p))
                      = (db p)(modelName Product := db p (modelName Product) @ [d])))"
proof -
  note built = setPaths_product [OF assms(1,3,5,7)]
  from assms(2,4,6,7) built
  have "validate (modelSchema Product) (fst (new Product obj q)) = []"
    by (auto simp: new_def newObjectId_def Product_def validate_def failsRequired_def
          productSchema_def)
  moreover from assms(2,4,6,7) built
  have "\<exists>d. fst (insertMany Product [obj] p) = Inr [d]
          \<and> doc_id d = nextId p
          \<and> map_of (data d) ''brand'' = map_of obj ''brand''
          \<and> db (snd (insertMany Product [obj] p))
              = (db p)(modelName Product := db p (modelName Product) @ [d])"
    if "readyState p = Connected \<and> nextId p \<notin> doc_id ` set (db p (modelName Product))"
    using that
    by (auto simp: insertMany_unfold new_def newObjectId_def Product_def validate_def
          failsRequired_def productSchema_def stamp_def insertOne_def)
  ultimately show ?thesis by blast
qed

text \<open>
  At a connected process with an empty database: a product whose brand is the identifier
  77 of no stored brand is created with that brand, and a product with no brand is
  created with none.
\<close>

theorem product_created_whatever_brand_witness:
  "(\<exists>d. fst (insertMany Product
              [[(''title'', Str ''Apple AirPods''),
                (''description'', Str ''https://www.apple.com/airpods''),
                (''price'', Str ''250''), (''brand'', Oid 77)]]
              \<lparr>db = (\<lambda>_. []), readyState = Connected, nextId = 0, clock = 0, inflight = [],
               events = []\<rparr>) = Inr [d]
        \<and> map_of (data d) ''brand'' = Some (Oid 77))
   \<and> (\<exists>d. fst (insertMany Product
              [[(''title'', Str ''Apple AirPods''),
                (''description'', Str ''https://www.apple.com/airpods''),
                (''price'', Str ''250'')]]
              \<lparr>db = (\<lambda>_. []), readyState = Connected, nextId = 0, clock = 0, inflight = [],
               events = []\<rparr>) = Inr [d]
        \<and> map_of (data d) ''brand'' = None)"
  using
    product_created_whatever_brand [of
      "[(''title'', Str ''Apple AirPods''),
        (''description'', Str ''https://www.apple.com/airpods''),
        (''price'', Str ''250''), (''brand'', Oid 77)]"
      "''Apple AirPods''" "''https://www.apple.com/airpods''" "''250''" 77
      "\<lparr>db = (\<lambda>_. []), readyState = Connected, nextId = 0, clock = 0, inflight = [],
        events = []\<rparr>"
      "\<lparr>db = (\<lambda>_. []), readyState = Connected, nextId = 0, clock = 0, inflight = [],
        events = []\<rparr>"]
    product_created_whatever_brand [of
      "[(''title'', Str ''Apple AirPods''),
        (''description'', Str ''https://www.apple.com/airpods''),
        (''price'', Str ''250'')]"
      "''Apple AirPods''" "''https://www.apple.com/airpods''" "''250''" 77
      "\<lparr>db = (\<lambda>_. []), readyState = Connected, nextId = 0, clock = 0, inflight = [],
        events = []\<rparr>"
      "\<lparr>db = (\<lambda>_. []), readyState = Connected, nextId = 0, clock = 0, inflight = [],
        events = []\<rparr>"]
  by auto

text \<open>
  C6. When \<open>insertMany\<close> has created products, the product built from an input object
  whose \<open>brand\<close> is the identifier \<open>b\<close>, fetched by the text of its own generated
  identifier through the route by identifier, from any connected process that sees the
  database the creation left, is answered with status 200 and that document, whose \<open>brand\<close>
  is \<open>b\<close>.
\<close>

theorem product_round_trip:
  assumes "insertMany Product objs p = (Inr ds, p')"
    and "i < length objs" and "map_of (objs ! i) ''brand'' = Some (Oid b)"
    and "readyState s = Connected" and "db s = db p'"
  shows "length ds = length objs
       \<and> fst (app (GetProductById (toHexString (doc_id (ds ! i)))) s)
           = Responded \<lparr>status = 200, body = JsonObject (ds ! i)\<rparr>
       \<and> map_of (data (ds ! i)) ''brand'' = Some (Oid b)"
proof -
  from insertMany_ok [OF assms(1)]
  have dat: "map data ds = map (\<lambda>obj. fst (setPaths (paths (modelSchema Product)) obj)) objs"
    and ins: "insertAll (modelName Product) ds (db p) = (None, db p')"
    by simp_all
  from dat have len: "length ds = length objs" by (metis length_map)
  with assms(2) have i: "i < length ds" by simp
  from dat i assms(2) have "data (ds ! i) = fst (setPaths (paths (modelSchema Product)) (objs ! i))"
    by (metis nth_map)
  with setPaths_brand_kept [OF assms(3)]
  have brand: "map_of (data (ds ! i)) ''brand'' = Some (Oid b)" by (simp add: Product_def)
  from insertAll_find [OF ins i] assms(4,5)
  have "fst (app (GetProductById (toHexString (doc_id (ds ! i)))) s)
           = Responded \<lparr>status = 200, body = JsonObject (ds ! i)\<rparr>"
    by (simp add: get_product_by_id_def await_def findById_def castObjectId_toHexString
          res_json_def)
  with len brand show ?thesis by simp
qed


text \<open>
  One product with brand 77, created with identifier 5 in an empty database, then fetched
  by the text of that identifier from another connected process.
\<close>

lemma one_product_inserted:
  "insertMany Product
     [[(''title'', Str ''Apple AirPods''),
       (''description'', Str ''https://www.apple.com/airpods''),
       (''price'', Str ''250''), (''brand'', Oid 77)]]
     \<lparr>db = (\<lambda>_. []), readyState = Connected, nextId = 5, clock = 0, inflight = [],
      events = []\<rparr>
   = (Inr [productDoc 5
             [(''title'', Str ''Apple AirPods''),
              (''description'', Str ''https://www.apple.com/airpods''),
              (''price'', Str ''250''), (''brand'', Oid 77)] (Some 0)],
      \<lparr>db = (\<lambda>_. [])(''Product'' :=
               [productDoc 5
                  [(''title'', Str ''Apple AirPods''),
                   (''description'', Str ''https://www.apple.com/airpods''),
                   (''price'', Str ''250''), (''brand'', Oid 77)] (Some 0)]),
       readyState = Connected, nextId = 6, clock = 0, inflight = [],
       events = [InsertManyCalled ''Product''
                   [[(''title'', Str ''Apple AirPods''),
                     (''description'', Str ''https://www.apple.com/airpods''),
                     (''price'', Str ''250''), (''brand'', Oid 77)]]]\<rparr>)"
  by (simp add: insertMany_unfold new_def newObjectId_def Product_def productSchema_def
        validate_def failsRequired_def stamp_def insertOne_def nextObjectId_def)

theorem product_round_trip_witness:
  "fst (app (GetProductById (toHexString 5))
          \<lparr>db = (\<lambda>_. [])(''Product'' :=
               [productDoc 5
                  [(''title'', Str ''Apple AirPods''),
                   (''description'', Str ''https://www.apple.com/airpods''),
                   (''price'', Str ''250''), (''brand'', Oid 77)] (Some 0)]),
           readyState = Connected, nextId = 0, clock = 9, inflight = [], events = []\<rparr>)
     = Responded
         \<lparr>status = 200,
          body = JsonObject
            (productDoc 5
               [(''title'', Str ''Apple AirPods''),
                (''description'', Str ''https://www.apple.com/airpods''),
                (''price'', Str ''250''), (''brand'', Oid 77)] (Some 0))\<rparr>"
  using product_round_trip [OF one_product_inserted, of 0 77
      "\<lparr>db = (\<lambda>_. [])(''Product'' :=
               [productDoc 5
                  [(''title'', Str ''Apple AirPods''),
                   (''description'', Str ''https://www.apple.com/airpods''),
                   (''price'', Str ''250''), (''brand'', Oid 77)] (Some 0)]),
           readyState = Connected, nextId = 0, clock = 9, inflight = [], events = []\<rparr>"]
  by simp


section \<open>The seed script\<close>

lemma new_Brand:
  "new Brand [(''name'', Str n), (''url'', Str u)] p =
     (\<lparr>doc_id = nextId p, data = [(''name'', Str n), (''url'', Str u)], invalid = [],
       createdAt = None, updatedAt = None\<rparr>, p\<lparr>nextId := nextObjectId (nextId p)\<rparr>)"
  by (simp add: new_def newObjectId_def Brand_def brandSchema_def)

lemma new_Product:
  "new Product [(''title'', Str a), (''description'', Str b), (''price'', Str c), (''brand'', Oid i)] p =
     (\<lparr>doc_id = nextId p,
       data = [(''title'', Str a), (''description'', Str b), (''price'', Str c), (''brand'', Oid i)],
       invalid = [], createdAt = None, updatedAt = None\<rparr>, p\<lparr>nextId := nextObjectId (nextId p)\<rparr>)"
  by (simp add: new_def newObjectId_def Product_def productSchema_def)

lemma model_names: "modelName Brand = ''Brand''" "modelName Product = ''Product''"
  by (simp_all add: Brand_def Product_def)

lemma save_ok:
  assumes "validate (modelSchema m) d = []" and "readyState p = Connected"
    and "doc_id d \<notin> doc_id ` set (db p (modelName m))"
  shows "save m d p
     = (Inr (), p\<lparr>db := (db p)(modelName m :=
                       db p (modelName m) @ [stamp (modelSchema m) (clock p) d])\<rparr>)"
  using assms by (simp add: save_def insertOne_def)

lemma validate_product_doc:
  "a \<noteq> [] \<Longrightarrow> b \<noteq> [] \<Longrightarrow> c \<noteq> [] \<Longrightarrow>
   validate (modelSchema Product)
     \<lparr>doc_id = i,
      data = [(''title'', Str a), (''description'', Str b), (''price'', Str c), (''brand'', Oid j)],
      invalid = [], createdAt = t, updatedAt = t'\<rparr> = []"
  by (simp add: validate_def failsRequired_def Product_def productSchema_def)

lemma validate_brand_doc:
  "n \<noteq> [] \<Longrightarrow> u \<noteq> [] \<Longrightarrow>
   validate (modelSchema Brand)
     \<lparr>doc_id = i, data = [(''name'', Str n), (''url'', Str u)],
      invalid = [], createdAt = t, updatedAt = t'\<rparr> = []"
  by (simp add: validate_def failsRequired_def Brand_def brandSchema_def)

lemma stamp_models:
  "stamp (modelSchema Product) t d = d\<lparr>createdAt := Some t, updatedAt := Some t\<rparr>"
  "stamp (modelSchema Brand) t d = d\<lparr>createdAt := Some t, updatedAt := Some t\<rparr>"
  by (simp_all add: stamp_def Product_def Brand_def productSchema_def brandSchema_def)

lemma insertAll_fresh:
  "distinct (map doc_id xs) \<Longrightarrow> doc_id ` set xs \<inter> doc_id ` set (dbs coll) = {} \<Longrightarrow>
     insertAll coll xs dbs = (None, dbs(coll := dbs coll @ xs))"
proof (induction xs arbitrary: dbs)
  case Nil
  then show ?case by simp
next
  case (Cons x xs)
  define D where "D = dbs(coll := dbs coll @ [x])"
  from Cons.prems have fresh: "doc_id x \<notin> doc_id ` set (dbs coll)" by auto
  then have step: "insertAll coll (x # xs) dbs = insertAll coll xs D"
    by (simp add: insertOne_def D_def)
  from Cons.prems have "distinct (map doc_id xs)"
    and "doc_id ` set xs \<inter> doc_id ` set (D coll) = {}"
    by (auto simp: D_def)
  with Cons.IH [of D] have "insertAll coll xs D = (None, D(coll := D coll @ xs))" by blast
  moreover have "D(coll := D coll @ xs) = dbs(coll := dbs coll @ x # xs)"
    by (simp add: D_def)
  ultimately show ?case by (simp only: step)
qed

lemma counter_steps:
  "nextObjectId 0 = 1" "nextObjectId 1 = 2" "nextObjectId 2 = 3" "nextObjectId 3 = 4"
  "nextObjectId 4 = 5" "nextObjectId 5 = 6" "nextObjectId 6 = 7" "nextObjectId 7 = 8"
  "nextObjectId 8 = 9" "nextObjectId 9 = 10" "nextObjectId 10 = 11" "nextObjectId 11 = 12"
  by (simp_all add: nextObjectId_def)

text \<open>The script up to its first wait: five documents built, five writes in flight.\<close>

lemma main_built:
  assumes "nextId p = c0" and "nextObjectId c0 = c1" and "nextObjectId c1 = c2" and "nextObjectId c2 = c3"
    and "nextObjectId c3 = c4" and "nextObjectId c4 = c5"
  shows "main e p =
     (case insertMany_call Product (products c0 c1 c2 c3 c4)
             (p\<lparr>nextId := c5,
                inflight := inflight p @ map (Pair Brand) (seedBrands [c0, c1, c2, c3, c4] None),
                events := events p
                  @ map (SaveCalled ''Brand'') (seedBrands [c0, c1, c2, c3, c4] None)\<rparr>) of
        (Inl err, p6) \<Rightarrow> (Inl err, p6)
      | (Inr docs, p6) \<Rightarrow>
          (case await (insertMany_write Product docs) (meanwhile e p6) of
             (Inl err, p') \<Rightarrow> (Inl err, p')
           | (Inr _, p') \<Rightarrow> (Inr (), console_log ''Created products!'' p')))"
  by (simp add: assms main_def new_Brand call_save_def model_names)

lemma newMany_products:
  assumes "nextId q = c5" and "nextObjectId c5 = c6" and "nextObjectId c6 = c7" and "nextObjectId c7 = c8"
    and "nextObjectId c8 = c9" and "nextObjectId c9 = c10" and "nextObjectId c10 = c11" and "nextObjectId c11 = c12"
  shows "newMany Product (products b1 b2 b3 b4 b5) q
     = (productDocs [c5, c6, c7, c8, c9, c10, c11] (products b1 b2 b3 b4 b5) None,
        q\<lparr>nextId := c12\<rparr>)"
  by (simp add: assms products_def new_Product)

lemma insertMany_call_products:
  assumes "nextId q = c5" and "nextObjectId c5 = c6" and "nextObjectId c6 = c7" and "nextObjectId c7 = c8"
    and "nextObjectId c8 = c9" and "nextObjectId c9 = c10" and "nextObjectId c10 = c11" and "nextObjectId c11 = c12"
  shows "insertMany_call Product (products b1 b2 b3 b4 b5) q
     = (Inr (productDocs [c5, c6, c7, c8, c9, c10, c11] (products b1 b2 b3 b4 b5) None),
        q\<lparr>nextId := c12,
          events := events q @ [InsertManyCalled ''Product'' (products b1 b2 b3 b4 b5)]\<rparr>)"
proof -
  let ?ds = "productDocs [c5, c6, c7, c8, c9, c10, c11] (products b1 b2 b3 b4 b5) None"
  let ?q0 = "q\<lparr>events := events q
               @ [InsertManyCalled (modelName Product) (products b1 b2 b3 b4 b5)]\<rparr>"
  from assms(1) have "nextId ?q0 = c5" by simp
  from newMany_products [OF this assms(2-8)]
  have nm: "newMany Product (products b1 b2 b3 b4 b5) ?q0 = (?ds, ?q0\<lparr>nextId := c12\<rparr>)" .
  have valid: "filter (\<lambda>d. validate (modelSchema Product) d \<noteq> []) ?ds = []"
    by (simp add: products_def validate_product_doc)
  show ?thesis
    by (simp only: insertMany_call_def nm prod.case valid list.case) (simp add: model_names)
qed

lemma insertMany_write_fresh:
  assumes "readyState q = Connected" and "distinct (map doc_id ds)"
    and "doc_id ` set ds \<inter> doc_id ` set (db q (modelName m)) = {}"
  shows "insertMany_write m ds q
     = (Inr (map (stamp (modelSchema m) (clock q)) ds),
        q\<lparr>db := (db q)(modelName m :=
                 db q (modelName m) @ map (stamp (modelSchema m) (clock q)) ds)\<rparr>)"
proof -
  let ?st = "map (stamp (modelSchema m) (clock q)) ds"
  from assms(2) have "distinct (map doc_id ?st)" by (simp add: comp_def)
  moreover from assms(3) have "doc_id ` set ?st \<inter> doc_id ` set (db q (modelName m)) = {}"
    by (simp add: image_image)
  ultimately have "insertAll (modelName m) ?st (db q)
      = (None, (db q)(modelName m := db q (modelName m) @ ?st))"
    using insertAll_fresh [of ?st "db q" "modelName m"] by blast
  with assms(1) show ?thesis by (simp add: insertMany_write_def)
qed

text \<open>Three of the five brand writes carried out, two left in flight.\<close>

lemma progress_brands:
  assumes "readyState q = Connected"
    and "distinct [c0, c1, c2]"
    and "doc_id ` set (db q ''Brand'') \<inter> {c0, c1, c2} = {}"
  shows "progress [True, True, True, False, False]
           (map (Pair Brand) (seedBrands [c0, c1, c2, c3, c4] None)) q
     = q\<lparr>db := (db q)(''Brand'' := db q ''Brand''
                   @ seedBrands [c0, c1, c2] (Some (clock q))),
         inflight := inflight q
                   @ [(Brand, brandDoc c3 ''Tribe'' ''https://www.tribebicycles.com'' None),
                      (Brand, brandDoc c4 ''Stumptown'' ''https://www.stumptowncoffee.com'' None)]\<rparr>"
proof -
  from assms(3) have fresh: "c0 \<notin> doc_id ` set (db q ''Brand'')"
    "c1 \<notin> doc_id ` set (db q ''Brand'')" "c2 \<notin> doc_id ` set (db q ''Brand'')"
    by auto
  from assms(2) have neq: "c1 \<noteq> c0" "c2 \<noteq> c0" "c2 \<noteq> c1"
    by auto
  from assms(1) neq fresh show ?thesis
    by (simp add: save_ok validate_brand_doc stamp_models model_names)
qed


text \<open>
  The whole run when the database is reached and three of the five brand writes are
  carried out before the batch is acknowledged.
\<close>

lemma run_seed:
  assumes "net e ''mongodb://127.0.0.1:27017/productsDatabase'' = Inr d"
    and "carriedOut e = [True, True, True, False, False]"
    and "inflight p = []" and "nextId p = c0"
    and "nextObjectId c0 = c1" and "nextObjectId c1 = c2" and "nextObjectId c2 = c3"
    and "nextObjectId c3 = c4" and "nextObjectId c4 = c5" and "nextObjectId c5 = c6"
    and "nextObjectId c6 = c7" and "nextObjectId c7 = c8" and "nextObjectId c8 = c9"
    and "nextObjectId c9 = c10" and "nextObjectId c10 = c11" and "nextObjectId c11 = c12"
    and "distinct [c0, c1, c2]" and "distinct [c5, c6, c7, c8, c9, c10, c11]"
    and "doc_id ` set (d ''Brand'') \<inter> {c0, c1, c2} = {}"
    and "doc_id ` set (d ''Product'') \<inter> {c5, c6, c7, c8, c9, c10, c11} = {}"
  shows "run e p =
     p\<lparr>db := d
            (''Brand'' := d ''Brand'' @ seedBrands [c0, c1, c2] (Some (clock p)),
             ''Product'' := d ''Product''
               @ productDocs [c5, c6, c7, c8, c9, c10, c11] (products c0 c1 c2 c3 c4)
                   (Some (clock p))),
       readyState := Disconnected,
       nextId := c12,
       inflight := [],
       events := events p
         @ map (SaveCalled ''Brand'') (seedBrands [c0, c1, c2, c3, c4] None)
         @ [InsertManyCalled ''Product'' (products c0 c1 c2 c3 c4),
            ConsoleLog ''Successfully connected to MongoDB'',
            ConsoleLog ''Created products!'',
            CloseCalled,
            UnhandledRejection PoolClosedError,
            UnhandledRejection PoolClosedError]\<rparr>"
proof -
  let ?P5 = "p\<lparr>nextId := c5,
                inflight := inflight p @ map (Pair Brand) (seedBrands [c0, c1, c2, c3, c4] None),
                events := events p
                  @ map (SaveCalled ''Brand'') (seedBrands [c0, c1, c2, c3, c4] None)\<rparr>"
  let ?docs = "productDocs [c5, c6, c7, c8, c9, c10, c11] (products c0 c1 c2 c3 c4) None"
  let ?P12 = "?P5\<lparr>nextId := c12,
          events := events ?P5 @ [InsertManyCalled ''Product'' (products c0 c1 c2 c3 c4)]\<rparr>"
  let ?K = "?P12\<lparr>db := d, readyState := Connected, inflight := [],
          events := events ?P12 @ [ConsoleLog ''Successfully connected to MongoDB'']\<rparr>"
  let ?W = "?K\<lparr>db := (db ?K)(''Brand'' := db ?K ''Brand''
                   @ seedBrands [c0, c1, c2] (Some (clock ?K))),
         inflight := inflight ?K
                   @ [(Brand, brandDoc c3 ''Tribe'' ''https://www.tribebicycles.com'' None),
                      (Brand, brandDoc c4 ''Stumptown'' ''https://www.stumptowncoffee.com'' None)]\<rparr>"
  let ?st = "map (stamp (modelSchema Product) (clock ?W)) ?docs"
  let ?R = "?W\<lparr>db := (db ?W)(modelName Product := db ?W (modelName Product) @ ?st)\<rparr>"
  have "nextId ?P5 = c5" by simp
  from insertMany_call_products [OF this assms(10-16), of c0 c1 c2 c3 c4]
  have A: "insertMany_call Product (products c0 c1 c2 c3 c4) ?P5 = (Inr ?docs, ?P12)" .
  have q0: "(connection_settles e ?P12)\<lparr>inflight := []\<rparr> = ?K"
    by (simp add: connection_settles_def assms(1) console_log_def)
  have inf: "inflight ?P12 = map (Pair Brand) (seedBrands [c0, c1, c2, c3, c4] None)"
    by (simp add: assms(3))
  have "readyState ?K = Connected"
    and "doc_id ` set (db ?K ''Brand'') \<inter> {c0, c1, c2} = {}"
    using assms(19) by simp_all
  from progress_brands [OF this(1) assms(17) this(2), of c3 c4]
  have pb: "progress [True, True, True, False, False]
      (map (Pair Brand) (seedBrands [c0, c1, c2, c3, c4] None)) ?K = ?W" .
  have B: "meanwhile e ?P12 = ?W"
    by (simp only: meanwhile_def assms(2) inf q0 pb)
  have conn: "readyState ?W = Connected" by simp
  from assms(18) have dist: "distinct (map doc_id ?docs)"
    by (simp add: products_def)
  have "doc_id ` set ?docs = {c5, c6, c7, c8, c9, c10, c11}"
    by (simp add: products_def)
  with assms(20)
  have disj: "doc_id ` set ?docs \<inter> doc_id ` set (db ?W (modelName Product)) = {}"
    by (simp add: model_names)
  from conn dist disj have C: "insertMany_write Product ?docs ?W = (Inr ?st, ?R)"
    by (rule insertMany_write_fresh)
  have M: "main e p = (Inr (), console_log ''Created products!'' ?R)"
    by (simp only: main_built [OF assms(4-9)] A prod.case sum.case await_def B C)
  show ?thesis
    by (simp only: run_def await_def M prod.case sum.case)
       (simp add: close_def console_log_def assms(3) model_names stamp_models products_def)
qed

lemma seed_three_of_five:
  "seed \<lparr>envVars = Map.empty, net = (\<lambda>_. Inr (\<lambda>_. [])), idSeed = 0, time = 0,
         carriedOut = [True, True, True, False, False]\<rparr>
   = \<lparr>db = (\<lambda>_. [])
            (''Brand'' := seedBrands [0, 1, 2] (Some 0),
             ''Product'' := productDocs [5, 6, 7, 8, 9, 10, 11] (products 0 1 2 3 4) (Some 0)),
      readyState = Disconnected, nextId = 12, clock = 0, inflight = [],
      events = Connect ''mongodb://127.0.0.1:27017/productsDatabase''
         # map (SaveCalled ''Brand'') (seedBrands [0, 1, 2, 3, 4] None)
         @ [InsertManyCalled ''Product'' (products 0 1 2 3 4),
            ConsoleLog ''Successfully connected to MongoDB'',
            ConsoleLog ''Created products!'',
            CloseCalled,
            UnhandledRejection PoolClosedError,
            UnhandledRejection PoolClosedError]\<rparr>"
  using run_seed [of
      "\<lparr>envVars = Map.empty, net = (\<lambda>_. Inr (\<lambda>_. [])), idSeed = 0, time = 0,
        carriedOut = [True, True, True, False, False]\<rparr>"
      "\<lambda>_. []"
      "db_module \<lparr>envVars = Map.empty, net = (\<lambda>_. Inr (\<lambda>_. [])), idSeed = 0, time = 0,
        carriedOut = [True, True, True, False, False]\<rparr>"
      0 1 2 3 4 5 6 7 8 9 10 11 12]
  by (simp add: seed_def db_module_def counter_steps)


text \<open>
  C2. The script does not insert the five brands in sequence before the batch: it calls
  \<open>save\<close> on each and waits for none of them, so the five writes race with the batch
  and with the close. Run once against an empty database that is reached, identifiers
  from 0, when three of the five brand writes have been carried out by the time the batch
  is acknowledged: the five \<open>save\<close> calls and the \<open>insertMany\<close> call are made before the
  connection is there; the seven products are written in one batch, the completion is
  logged and the connection closed; the close rejects the two brand writes still in
  flight. The Brand collection ends with three brands, not five, and the products of the
  other two brands refer to identifiers of no stored brand.
\<close>

theorem seed_brands_not_awaited:
  "events (seed \<lparr>envVars = Map.empty, net = (\<lambda>_. Inr (\<lambda>_. [])), idSeed = 0, time = 0,
               carriedOut = [True, True, True, False, False]\<rparr>)
     = [Connect ''mongodb://127.0.0.1:27017/productsDatabase'',
        SaveCalled ''Brand'' (brandDoc 0 ''Apple'' ''https://www.apple.com'' None),
        SaveCalled ''Brand'' (brandDoc 1 ''Vespa'' ''https://www.vespa.com'' None),
        SaveCalled ''Brand'' (brandDoc 2 ''New Balance'' ''https://www.newbalance.com'' None),
        SaveCalled ''Brand'' (brandDoc 3 ''Tribe'' ''https://www.tribebicycles.com'' None),
        SaveCalled ''Brand'' (brandDoc 4 ''Stumptown'' ''https://www.stumptowncoffee.com'' None),
        InsertManyCalled ''Product'' (products 0 1 2 3 4),
        ConsoleLog ''Successfully connected to MongoDB'',
        ConsoleLog ''Created products!'',
        CloseCalled,
        UnhandledRejection PoolClosedError,
        UnhandledRejection PoolClosedError]
   \<and> db (seed \<lparr>envVars = Map.empty, net = (\<lambda>_. Inr (\<lambda>_. [])), idSeed = 0, time = 0,
               carriedOut = [True, True, True, False, False]\<rparr>) ''Brand''
     = [brandDoc 0 ''Apple'' ''https://www.apple.com'' (Some 0),
        brandDoc 1 ''Vespa'' ''https://www.vespa.com'' (Some 0),
        brandDoc 2 ''New Balance'' ''https://www.newbalance.com'' (Some 0)]
   \<and> map data (db (seed \<lparr>envVars = Map.empty, net = (\<lambda>_. Inr (\<lambda>_. [])), idSeed = 0, time = 0,
               carriedOut = [True, True, True, False, False]\<rparr>) ''Product'') = products 0 1 2 3 4
   \<and> map (\<lambda>obj. map_of obj ''brand'') (products 0 1 2 3 4)
     = map (\<lambda>b. Some (Oid b)) [0, 0, 0, 1, 2, 3, 4]
   \<and> readyState (seed \<lparr>envVars = Map.empty, net = (\<lambda>_. Inr (\<lambda>_. [])), idSeed = 0, time = 0,
               carriedOut = [True, True, True, False, False]\<rparr>) = Disconnected"
  by (simp add: seed_three_of_five) (simp add: products_def)

text \<open>
  C7. Seed an empty database once, with the same timing as above (three of the five brand
  writes carried out before the batch is acknowledged); then, for a server started on the
  database the script left: the brand list has 3 entries, not 5. The product half of the
  scenario holds in this run: the product list has 7 entries, and the request for the
  first listed product by the text of its identifier is answered with status 200 and a
  document whose \<open>title\<close> is \<open>Apple AirPods\<close> and whose \<open>price\<close> is \<open>250\<close>.
\<close>

theorem seed_then_serve_three_brands:
  "fst (app GetBrands
          (server \<lparr>envVars = Map.empty, net = (\<lambda>_. Inr (db (seed \<lparr>envVars = Map.empty, net = (\<lambda>_. Inr (\<lambda>_. [])), idSeed = 0, time = 0,
               carriedOut = [True, True, True, False, False]\<rparr>))),
                   idSeed = 100, time = 1, carriedOut = []\<rparr>))
     = Responded
         \<lparr>status = 200,
          body = JsonArray
            [brandDoc 0 ''Apple'' ''https://www.apple.com'' (Some 0),
             brandDoc 1 ''Vespa'' ''https://www.vespa.com'' (Some 0),
             brandDoc 2 ''New Balance'' ''https://www.newbalance.com'' (Some 0)]\<rparr>
   \<and> (\<exists>ps d.
         fst (app GetProducts
                (server \<lparr>envVars = Map.empty, net = (\<lambda>_. Inr (db (seed \<lparr>envVars = Map.empty, net = (\<lambda>_. Inr (\<lambda>_. [])), idSeed = 0, time = 0,
               carriedOut = [True, True, True, False, False]\<rparr>))),
                         idSeed = 100, time = 1, carriedOut = []\<rparr>))
           = Responded \<lparr>status = 200, body = JsonArray ps\<rparr>
       \<and> length ps = 7
       \<and> fst (app (GetProductById (toHexString (doc_id (hd ps))))
                (server \<lparr>envVars = Map.empty, net = (\<lambda>_. Inr (db (seed \<lparr>envVars = Map.empty, net = (\<lambda>_. Inr (\<lambda>_. [])), idSeed = 0, time = 0,
               carriedOut = [True, True, True, False, False]\<rparr>))),
                         idSeed = 100, time = 1, carriedOut = []\<rparr>))
           = Responded \<lparr>status = 200, body = JsonObject d\<rparr>
       \<and> map_of (data d) ''title'' = Some (Str ''Apple AirPods'')
       \<and> map_of (data d) ''price'' = Some (Str ''250''))"
proof -
  define s where "s = server \<lparr>envVars = Map.empty, net = (\<lambda>_. Inr (db (seed \<lparr>envVars = Map.empty, net = (\<lambda>_. Inr (\<lambda>_. [])), idSeed = 0, time = 0,
               carriedOut = [True, True, True, False, False]\<rparr>))),
                   idSeed = 100, time = 1, carriedOut = []\<rparr>"
  let ?ps = "productDocs [5, 6, 7, 8, 9, 10, 11] (products 0 1 2 3 4) (Some 0)"
  let ?bs = "[brandDoc 0 ''Apple'' ''https://www.apple.com'' (Some 0),
             brandDoc 1 ''Vespa'' ''https://www.vespa.com'' (Some 0),
             brandDoc 2 ''New Balance'' ''https://www.newbalance.com'' (Some 0)]"
  have conn: "readyState s = Connected"
    and prods: "db s (modelName Product) = ?ps" and brands: "db s (modelName Brand) = ?bs"
    by (simp_all add: s_def server_def connection_settles_def console_log_def db_module_def
          seed_three_of_five model_names)
  have first: "hd ?ps = productDoc 5
      [(''title'', Str ''Apple AirPods''), (''description'', Str ''https://www.apple.com/airpods''),
       (''price'', Str ''250''), (''brand'', Oid 0)] (Some 0)"
    by (simp add: products_def)
  have b: "fst (app GetBrands s) = Responded \<lparr>status = 200, body = JsonArray ?bs\<rparr>"
    by (simp add: get_brands_def await_def find_all [OF conn] brands res_json_def)
  have p: "fst (app GetProducts s) = Responded \<lparr>status = 200, body = JsonArray ?ps\<rparr>"
    by (simp add: get_products_def await_def find_all [OF conn] prods res_json_def)
  have len: "length ?ps = 7" by (simp add: products_def)
  have one: "fst (app (GetProductById (toHexString (doc_id (hd ?ps)))) s)
         = Responded \<lparr>status = 200, body = JsonObject (hd ?ps)\<rparr>"
    by (simp only: first)
       (simp add: get_product_by_id_def await_def findById_def castObjectId_toHexString conn
          prods products_def res_json_def)
  have dat: "map_of (data (hd ?ps)) ''title'' = Some (Str ''Apple AirPods'')"
    "map_of (data (hd ?ps)) ''price'' = Some (Str ''250'')"
    by (simp_all add: first)
  from p len one dat have "\<exists>ps d.
         fst (app GetProducts s) = Responded \<lparr>status = 200, body = JsonArray ps\<rparr>
       \<and> length ps = 7
       \<and> fst (app (GetProductById (toHexString (doc_id (hd ps)))) s)
           = Responded \<lparr>status = 200, body = JsonObject d\<rparr>
       \<and> map_of (data d) ''title'' = Some (Str ''Apple AirPods'')
       \<and> map_of (data d) ''price'' = Some (Str ''250'')"
    by blast
  with b show ?thesis unfolding s_def by (rule conjI)
qed

end
